theory Spec2Isabelle
  imports Complex_Main
begin

section \<open>Exceptions\<close>

text \<open>
  The Python exceptions that the modelled code raises. A function that can raise returns
  \<open>py_error + 'a\<close>, with \<open>Inl\<close> for the exception.
\<close>

datatype py_error =
    ValueError string
  | ZeroDivisionError
  | AttributeError
  | KeyError string
  | IndexError

section \<open>Bar tables\<close>

text \<open>
  A row of the OHLCV table that every analysis receives (a pandas DataFrame indexed by
  date). Prices and volumes are floats in the source; they are modelled as reals, so
  rounding, infinities and NaN are outside the model. The date index is a day number.
\<close>

record bar =
  Date :: int
  Open :: real
  High :: real
  Low :: real
  Close :: real
  Volume :: real

section \<open>Pivot finder\<close>

text \<open>
  \<^verbatim>\<open>GannWheel._find_pivot_points\<close> (gann_wheel.py) appends a dictionary with the keys
  date, price, type and index for every local high and every local low.
\<close>

record pivot =
  date :: int
  price :: real
  ptype :: string
  index :: nat

text \<open>
  The two \<^verbatim>\<open>all(...)\<close> tests of the loop body, over \<^verbatim>\<open>j in range(1, window+1)\<close>. Inside the
  loop \<open>window \<le> i\<close> and \<open>i + window < len(data)\<close>, so every \<^verbatim>\<open>iloc\<close> read is in range.
\<close>

definition is_local_high :: "bar list \<Rightarrow> nat \<Rightarrow> nat \<Rightarrow> bool" where
  "is_local_high data window i =
     (list_all (\<lambda>j. High (data ! i) \<ge> High (data ! (i - j))) [1..<window + 1] \<and>
      list_all (\<lambda>j. High (data ! i) \<ge> High (data ! (i + j))) [1..<window + 1])"

definition is_local_low :: "bar list \<Rightarrow> nat \<Rightarrow> nat \<Rightarrow> bool" where
  "is_local_low data window i =
     (list_all (\<lambda>j. Low (data ! i) \<le> Low (data ! (i - j))) [1..<window + 1] \<and>
      list_all (\<lambda>j. Low (data ! i) \<le> Low (data ! (i + j))) [1..<window + 1])"

definition high_pivot :: "bar list \<Rightarrow> nat \<Rightarrow> pivot" where
  "high_pivot data i =
     \<lparr>date = Date (data ! i), price = High (data ! i), ptype = ''high'', index = i\<rparr>"

definition low_pivot :: "bar list \<Rightarrow> nat \<Rightarrow> pivot" where
  "low_pivot data i =
     \<lparr>date = Date (data ! i), price = Low (data ! i), ptype = ''low'', index = i\<rparr>"

text \<open>The loop \<^verbatim>\<open>for i in range(window, len(data) - window)\<close>, over the list of its indices.\<close>

fun pivot_loop :: "bar list \<Rightarrow> nat \<Rightarrow> nat list \<Rightarrow> pivot list \<times> pivot list" where
  "pivot_loop data window [] = ([], [])"
| "pivot_loop data window (i # rest) =
     (let (highs, lows) = pivot_loop data window rest
      in ((if is_local_high data window i then [high_pivot data i] else []) @ highs,
          (if is_local_low data window i then [low_pivot data i] else []) @ lows))"

text \<open>
  \<^verbatim>\<open>range(window, len(data) - window)\<close> is empty when the table is shorter than twice the
  window; the truncated subtraction of \<open>nat\<close> gives the same empty range.
\<close>

definition find_pivot_points :: "bar list \<Rightarrow> nat \<Rightarrow> pivot list \<times> pivot list" where
  "find_pivot_points data window = pivot_loop data window [window..<length data - window]"

text \<open>
  \<^verbatim>\<open>VolumePriceAnalyzer._find_price_extremes\<close> (volume_price_analyzer.py) runs the same
  scan for one kind of extreme and also records the volume of the bar.
\<close>

record extreme = pivot +
  volume :: real

definition high_extreme :: "bar list \<Rightarrow> nat \<Rightarrow> extreme" where
  "high_extreme data i =
     \<lparr>date = Date (data ! i), price = High (data ! i), ptype = ''high'', index = i,
      volume = Volume (data ! i)\<rparr>"

definition low_extreme :: "bar list \<Rightarrow> nat \<Rightarrow> extreme" where
  "low_extreme data i =
     \<lparr>date = Date (data ! i), price = Low (data ! i), ptype = ''low'', index = i,
      volume = Volume (data ! i)\<rparr>"

fun extremes_loop :: "(nat \<Rightarrow> bool) \<Rightarrow> (nat \<Rightarrow> extreme) \<Rightarrow> nat list \<Rightarrow> extreme list" where
  "extremes_loop test mk [] = []"
| "extremes_loop test mk (i # rest) =
     (if test i then mk i # extremes_loop test mk rest else extremes_loop test mk rest)"

definition find_price_extremes :: "bar list \<Rightarrow> string \<Rightarrow> nat \<Rightarrow> extreme list" where
  "find_price_extremes data extreme_type window =
     (if extreme_type = ''high''
      then extremes_loop (is_local_high data window) (high_extreme data)
             [window..<length data - window]
      else extremes_loop (is_local_low data window) (low_extreme data)
             [window..<length data - window])"

section \<open>Divergence detection\<close>

text \<open>
  The records appended by \<^verbatim>\<open>_detect_top_divergence\<close> and \<^verbatim>\<open>_detect_bottom_divergence\<close>.
  The quotients are numpy float divisions in the source (no exception on a zero divisor).
\<close>

record divergence =
  d_date :: int
  d_type :: string
  d_price :: real
  d_volume :: real
  previous_price :: real
  previous_volume :: real
  price_change_pct :: real
  volume_change_pct :: real
  d_strength :: real

definition divergence_record :: "string \<Rightarrow> extreme \<Rightarrow> extreme \<Rightarrow> divergence" where
  "divergence_record kind previous current =
     \<lparr>d_date = date current, d_type = kind, d_price = price current,
      d_volume = volume current, previous_price = price previous,
      previous_volume = volume previous,
      price_change_pct = (price current - price previous) / price previous,
      volume_change_pct = (volume current - volume previous) / volume previous,
      d_strength = \<bar>(volume current - volume previous) / volume previous\<bar>\<rparr>"

text \<open>
  \<^verbatim>\<open>for i in range(1, len(price_highs))\<close> compares each extreme with the one before it.
\<close>

fun detect_top_divergence :: "real \<Rightarrow> extreme list \<Rightarrow> divergence list" where
  "detect_top_divergence divergence_threshold (previous_high # current_high # rest) =
     (if price current_high > price previous_high \<and>
         volume current_high < volume previous_high * (1 - divergence_threshold)
      then [divergence_record ''top_divergence'' previous_high current_high] else [])
     @ detect_top_divergence divergence_threshold (current_high # rest)"
| "detect_top_divergence divergence_threshold price_highs = []"

fun detect_bottom_divergence :: "real \<Rightarrow> extreme list \<Rightarrow> divergence list" where
  "detect_bottom_divergence divergence_threshold (previous_low # current_low # rest) =
     (if price current_low < price previous_low \<and>
         volume current_low > volume previous_low * (1 + divergence_threshold)
      then [divergence_record ''bottom_divergence'' previous_low current_low] else [])
     @ detect_bottom_divergence divergence_threshold (current_low # rest)"
| "detect_bottom_divergence divergence_threshold price_lows = []"

text \<open>
  The part of \<^verbatim>\<open>_analyze_divergence\<close> that produces the key \<^verbatim>\<open>top_divergences\<close>:
  the extremes are found with the default window 5.
\<close>

definition top_divergences :: "real \<Rightarrow> bar list \<Rightarrow> divergence list" where
  "top_divergences divergence_threshold data =
     detect_top_divergence divergence_threshold (find_price_extremes data ''high'' 5)"

definition bottom_divergences :: "real \<Rightarrow> bar list \<Rightarrow> divergence list" where
  "bottom_divergences divergence_threshold data =
     detect_bottom_divergence divergence_threshold (find_price_extremes data ''low'' 5)"

section \<open>Example series\<close>

text \<open>A bar whose open, high and close are one price, with the low one unit below.\<close>

definition price_bar :: "nat \<Rightarrow> real \<Rightarrow> real \<Rightarrow> bar" where
  "price_bar i p v = \<lparr>Date = int i, Open = p, High = p, Low = p - 1, Close = p, Volume = v\<rparr>"

text \<open>Eleven bars rising to a peak at index 5, and eleven bars whose peak is at index 2.\<close>

definition tent11 :: "bar list" where
  "tent11 = map (\<lambda>i. price_bar i (if i \<le> 5 then 10 + real i else 20 - real i) 1000) [0..<11]"

definition early_peak :: "bar list" where
  "early_peak = map (\<lambda>i. price_bar i (if i \<le> 2 then 10 + real i else 14 - real i) 1000) [0..<11]"

text \<open>
  Sixty bars rising to bar 30, falling to bar 58, with the last bar (59) above every
  earlier bar on half the volume; and seventy bars with peaks at bars 30 and 59.
\<close>

definition lone_peak :: "bar list" where
  "lone_peak = map (\<lambda>i. price_bar i
       (if i \<le> 30 then 70 + real i else if i < 59 then 130 - real i else 110)
       (if i = 59 then 500 else 1000)) [0..<60]"


text \<open>Pairs of consecutive price highs, as \<^verbatim>\<open>_find_price_extremes\<close> returns them.\<close>

definition first_high :: extreme where
  "first_high = \<lparr>date = 10, price = 100, ptype = ''high'', index = 10, volume = 1000\<rparr>"

definition second_high_kept :: extreme where
  "second_high_kept = \<lparr>date = 20, price = 105, ptype = ''high'', index = 20, volume = 850\<rparr>"

definition second_high_thin :: extreme where
  "second_high_thin = \<lparr>date = 20, price = 105, ptype = ''high'', index = 20, volume = 840\<rparr>"

definition idle_high :: extreme where
  "idle_high = \<lparr>date = 10, price = 100, ptype = ''high'', index = 10, volume = 0\<rparr>"

definition idle_higher :: extreme where
  "idle_higher = \<lparr>date = 20, price = 105, ptype = ''high'', index = 20, volume = 0\<rparr>"

section \<open>Level clustering\<close>

text \<open>
  \<^verbatim>\<open>GannWheel._merge_similar_levels\<close> receives dictionaries with the keys price, type and
  strength (and further keys that it never reads) and returns dictionaries with the keys
  price, type, strength, count and original_types. Prices are reals here. The one place
  where the representation of a price decides the control flow is a division by a price
  of zero: it raises for two Python floats and gives inf or nan, without raising, as soon
  as a \<^verbatim>\<open>numpy.float64\<close> takes part. \<open>l_numpy\<close> records which of the two a price is: the
  historical, pivot and Fibonacci levels take their prices from the table
  (\<^verbatim>\<open>numpy.float64\<close>), the Gann square levels from \<^verbatim>\<open>math.sqrt\<close> (Python floats).
\<close>

record level =
  l_price :: real
  l_type :: string
  l_strength :: real
  l_numpy :: bool

record merged_level =
  m_price :: real
  m_type :: string
  m_strength :: real
  m_count :: nat
  original_types :: "string set"

text \<open>
  \<^verbatim>\<open>_merge_level_group\<close>. The source builds \<^verbatim>\<open>types = list(set(...))\<close>, a list without
  duplicates whose order follows the hash values of the strings and changes from one
  interpreter process to the next. Its length, and its single element when the length
  is 1, decide the merged type, and neither depends on the order; the list itself is
  stored under \<^verbatim>\<open>original_types\<close>, which therefore holds the set of its elements here and
  no order.
\<close>

definition merge_level_group :: "level list \<Rightarrow> merged_level" where
  "merge_level_group grp =
     (let avg_price = sum_list (map l_price grp) / real (length grp);
          total_strength = sum_list (map l_strength grp) / real (length grp);
          types = remdups (map l_type grp)
      in \<lparr>m_price = avg_price,
          m_type = (if length types = 1 then hd types else ''combined''),
          m_strength = total_strength,
          m_count = length grp,
          original_types = set types\<rparr>)"

text \<open>
  The loop of \<^verbatim>\<open>_merge_similar_levels\<close> over the sorted levels, with the group that is
  open. When the price of the last member of the group is zero, the quotient raises
  \<^verbatim>\<open>ZeroDivisionError\<close> if that price and the price of the current level are both Python
  floats, and the exception leaves the function; with a \<^verbatim>\<open>numpy.float64\<close> on either side
  the quotient is inf or nan, the comparison with the tolerance is false, and the current
  level opens a new group. (Signed zeros are not told apart.)
\<close>

fun merge_loop :: "real \<Rightarrow> level list \<Rightarrow> level list \<Rightarrow> py_error + merged_level list" where
  "merge_loop tolerance current_group [] = Inr [merge_level_group current_group]"
| "merge_loop tolerance current_group (current_level # rest) =
     (let last_in_group = last current_group in
      if l_price last_in_group = 0 \<and> \<not> l_numpy last_in_group \<and> \<not> l_numpy current_level
      then Inl ZeroDivisionError
      else if l_price last_in_group \<noteq> 0 \<and>
              \<bar>l_price current_level - l_price last_in_group\<bar> / l_price last_in_group < tolerance
      then merge_loop tolerance (current_group @ [current_level]) rest
      else (case merge_loop tolerance [current_level] rest of
              Inl e \<Rightarrow> Inl e
            | Inr merged_levels \<Rightarrow> Inr (merge_level_group current_group # merged_levels)))"

text \<open>\<^verbatim>\<open>sorted(levels, key=lambda x: x['price'])\<close> is a stable sort, as \<open>sort_key\<close> is.\<close>

definition merge_similar_levels :: "real \<Rightarrow> level list \<Rightarrow> py_error + merged_level list" where
  "merge_similar_levels tolerance levels =
     (if levels = [] then Inr []
      else let sorted_levels = sort_key l_price levels
           in merge_loop tolerance [hd sorted_levels] (tl sorted_levels))"

text \<open>The output record of a group with one member.\<close>

definition kept_level :: "level \<Rightarrow> merged_level" where
  "kept_level l =
     \<lparr>m_price = l_price l, m_type = l_type l, m_strength = l_strength l, m_count = 1,
      original_types = {l_type l}\<rparr>"

text \<open>
  Two levels are apart when their prices differ by at least the tolerance fraction of the
  lower price; \<open>no_two_within\<close> says so of every two positions of a list.
\<close>

definition apart :: "real \<Rightarrow> level \<Rightarrow> level \<Rightarrow> bool" where
  "apart tolerance a b =
     (tolerance * min (l_price a) (l_price b) \<le> \<bar>l_price a - l_price b\<bar>)"

primrec no_two_within :: "real \<Rightarrow> level list \<Rightarrow> bool" where
  "no_two_within tolerance [] = True"
| "no_two_within tolerance (l # ls) =
     (list_all (apart tolerance l) ls \<and> no_two_within tolerance ls)"

text \<open>Example levels: a price, a type, the strength 0.5.\<close>

definition level_at :: "real \<Rightarrow> string \<Rightarrow> level" where
  "level_at p t =
     \<lparr>l_price = p, l_type = t, l_strength = 0.5, l_numpy = (t \<noteq> ''gann_square'')\<rparr>"

section \<open>Divergence analysis\<close>

text \<open>
  \<^verbatim>\<open>_check_current_divergence_status\<close> returns \<^verbatim>\<open>None\<close> when there is no divergence at
  all, \<^verbatim>\<open>{'has_recent_divergence': False}\<close> when none is recent, and otherwise a dictionary
  with the days since the latest one. \<^verbatim>\<open>data.index[-30]\<close> raises on a table of fewer than
  30 bars.
\<close>

datatype divergence_status = No_recent_divergence | Recent_divergence int

definition check_current_divergence_status ::
    "bar list \<Rightarrow> divergence list \<Rightarrow> py_error + divergence_status option" where
  "check_current_divergence_status data divergences =
     (if divergences = [] then Inr None
      else if length data < 30 then Inl IndexError
      else
        let recent_divergences =
              filter (\<lambda>d. d_date d \<ge> Date (data ! (length data - 30))) divergences
        in if recent_divergences \<noteq> []
           then Inr (Some (Recent_divergence
                  (Date (last data) - Max (set (map d_date recent_divergences)))))
           else Inr (Some No_recent_divergence))"

text \<open>
  \<^verbatim>\<open>_analyze_divergence\<close>: its whole body is inside \<^verbatim>\<open>try\<close>, and the handler returns
  the empty dictionary, here \<open>None\<close>. The key \<^verbatim>\<open>divergence_strength\<close> (means and maxima of
  the strengths) is not modelled.
\<close>

record divergence_analysis =
  da_divergences :: "divergence list"
  da_top_divergences :: "divergence list"
  da_bottom_divergences :: "divergence list"
  current_divergence :: "divergence_status option"
  total_divergences :: nat

definition analyze_divergence :: "real \<Rightarrow> bar list \<Rightarrow> divergence_analysis option" where
  "analyze_divergence divergence_threshold data =
     (let tops = top_divergences divergence_threshold data;
          bottoms = bottom_divergences divergence_threshold data;
          divergences = sort_key d_date (tops @ bottoms)
      in case check_current_divergence_status data divergences of
           Inl e \<Rightarrow> None
         | Inr current \<Rightarrow>
             Some \<lparr>da_divergences = divergences, da_top_divergences = tops,
                   da_bottom_divergences = bottoms, current_divergence = current,
                   total_divergences = length divergences\<rparr>)"

section \<open>Comprehensive score\<close>

text \<open>
  The five scoring functions of volume_price_analyzer.py. Each receives the dictionary
  of one stage; \<open>None\<close> stands for the empty dictionary that a failed stage leaves. Only
  the entries that the scoring reads are kept: the current correlation and consistency,
  the number of recent abnormal-volume events, the coordination level and the trend
  consistency score.
\<close>

record relation_data =
  current_correlation :: real
  current_consistency :: real

definition score_volume_price_relation :: "relation_data option \<Rightarrow> real" where
  "score_volume_price_relation relation_data =
     (case relation_data of
        None \<Rightarrow> 50
      | Some r \<Rightarrow>
          min 100 (max 0 (\<bar>current_correlation r\<bar> * 50 + current_consistency r * 50)))"

text \<open>
  \<^verbatim>\<open>divergence_data.get('current_divergence', {})\<close> returns the stored \<^verbatim>\<open>None\<close> when the key
  is present with that value, and \<^verbatim>\<open>None.get(...)\<close> raises \<^verbatim>\<open>AttributeError\<close>.
\<close>

definition score_divergence_risk :: "divergence_analysis option \<Rightarrow> py_error + real" where
  "score_divergence_risk divergence_data =
     (case divergence_data of
        None \<Rightarrow> Inr 0
      | Some d \<Rightarrow>
          (case current_divergence d of
             None \<Rightarrow> Inl AttributeError
           | Some (Recent_divergence days_since) \<Rightarrow>
               Inr (min 100 (max 0 (100 - real_of_int days_since * 3)))
           | Some No_recent_divergence \<Rightarrow> Inr 20))"

definition score_volume_health :: "nat option \<Rightarrow> real" where
  "score_volume_health abnormal_data =
     (case abnormal_data of
        None \<Rightarrow> 70
      | Some total_events \<Rightarrow>
          if total_events = 0 then 90
          else if total_events \<le> 2 then 70
          else if total_events \<le> 5 then 50
          else 30)"

definition score_coordination :: "string option \<Rightarrow> real" where
  "score_coordination coordination_data =
     (case coordination_data of
        None \<Rightarrow> 50
      | Some level \<Rightarrow>
          if level = ''excellent'' then 95
          else if level = ''good'' then 80
          else if level = ''fair'' then 60
          else if level = ''poor'' then 40
          else if level = ''very_poor'' then 20
          else 50)"

definition score_trend_consistency :: "real option \<Rightarrow> real" where
  "score_trend_consistency trend_data =
     (case trend_data of None \<Rightarrow> 50 | Some score \<Rightarrow> score * 100)"

definition get_comprehensive_rating :: "real \<Rightarrow> string" where
  "get_comprehensive_rating score =
     (if score \<ge> 90 then ''A+''
      else if score \<ge> 80 then ''A''
      else if score \<ge> 70 then ''B+''
      else if score \<ge> 60 then ''B''
      else if score \<ge> 50 then ''C+''
      else if score \<ge> 40 then ''C''
      else if score \<ge> 30 then ''D+''
      else ''D'')"

text \<open>The stages of the result dictionary that the score reads.\<close>

record analysis_result =
  volume_price_relation :: "relation_data option"
  divergence_analysis :: "divergence_analysis option"
  abnormal_volume :: "nat option"
  price_volume_coordination :: "string option"
  trend_analysis :: "real option"

record score_result =
  comprehensive_score :: real
  rating :: string

text \<open>
  \<^verbatim>\<open>_calculate_comprehensive_score\<close>: the weighted sum is clamped to [0, 100] and rated; any
  exception inside the \<^verbatim>\<open>try\<close> block returns the fixed dictionary
  \<^verbatim>\<open>{'comprehensive_score': 50, 'rating': 'C'}\<close>. The keys \<^verbatim>\<open>individual_scores\<close> and
  \<^verbatim>\<open>weights\<close> of the regular result are not modelled.
\<close>

definition calculate_comprehensive_score :: "analysis_result \<Rightarrow> score_result" where
  "calculate_comprehensive_score analysis_result =
     (let relation_score = score_volume_price_relation (volume_price_relation analysis_result)
      in case score_divergence_risk (divergence_analysis analysis_result) of
           Inl e \<Rightarrow> \<lparr>comprehensive_score = 50, rating = ''C''\<rparr>
         | Inr divergence_score \<Rightarrow>
             let volume_health_score = score_volume_health (abnormal_volume analysis_result);
                 coordination_score =
                   score_coordination (price_volume_coordination analysis_result);
                 trend_score = score_trend_consistency (trend_analysis analysis_result);
                 weighted = relation_score * 0.25 + divergence_score * (- 0.15)
                   + volume_health_score * 0.20 + coordination_score * 0.20
                   + trend_score * 0.20;
                 clamped = max 0 (min 100 weighted)
             in \<lparr>comprehensive_score = clamped, rating = get_comprehensive_rating clamped\<rparr>)"

text \<open>One hundred identical bars.\<close>

definition flat_series :: "bar list" where
  "flat_series = map (\<lambda>i. \<lparr>Date = int i, Open = 10, High = 10, Low = 10, Close = 10,
     Volume = 1000\<rparr>) [0..<100]"

section \<open>Prediction confidence\<close>

text \<open>Python's \<^verbatim>\<open>int(x)\<close> on a float truncates towards zero.\<close>

definition py_int :: "real \<Rightarrow> int" where
  "py_int x = (if 0 \<le> x then \<lfloor>x\<rfloor> else \<lceil>x\<rceil>)"

text \<open>
  \<^verbatim>\<open>PricePredictionAnalyzer._calculate_dynamic_confidence\<close> (price_prediction_analyzer.py):
  the base table with its default 50, the four adjustments and the final clamp.
\<close>

definition base_confidence :: "string \<Rightarrow> real" where
  "base_confidence prediction_type =
     (if prediction_type = ''gann_wheel_angle'' then 75
      else if prediction_type = ''volume_breakout'' then 70
      else if prediction_type = ''fibonacci'' then 65
      else if prediction_type = ''pivot_support'' then 60
      else if prediction_type = ''pivot_resistance'' then 60
      else if prediction_type = ''support_resistance'' then 55
      else 50)"

definition calculate_dynamic_confidence ::
    "string \<Rightarrow> real \<Rightarrow> real \<Rightarrow> real \<Rightarrow> real \<Rightarrow> int" where
  "calculate_dynamic_confidence prediction_type strength market_volatility volume_factor
       technical_alignment =
     (let strength_adjustment = (strength - 0.5) * 35;
          volatility_adjustment = max (- 10) (min 10 ((0.02 - market_volatility) * 200));
          volume_adjustment = max (- 5) (min 10 ((volume_factor - 1) * 10));
          alignment_adjustment = (technical_alignment - 0.5) * 25;
          final_confidence = base_confidence prediction_type + strength_adjustment
            + volatility_adjustment + volume_adjustment + alignment_adjustment
      in max 30 (min 95 (py_int final_confidence)))"

text \<open>
  The two library computations that the targets use, on reals:
  \<^verbatim>\<open>math.tan(math.radians(angle))\<close> and \<^verbatim>\<open>_calculate_gann_angle\<close>, which rounds an arc
  tangent in degrees to one decimal (\<open>round\<close> rounds a tie upwards, Python to the even
  neighbour). The definitions below take them as parameters \<open>tan_deg\<close> and \<open>gann_angle\<close>,
  so what is proved of them holds whatever the floating-point library returns. At 90
  degrees the real tangent has a pole; the library returns the tangent of the double
  nearest to a quarter turn, 1.633123935319537e16, which \<open>tan_degrees\<close> returns there.
\<close>

definition tan_degrees :: "real \<Rightarrow> real" where
  "tan_degrees angle =
     (if angle = 90 then 16331239353195370 else tan (angle * pi / 180))"

text \<open>
  A quotient of two \<^verbatim>\<open>numpy.float64\<close> compared with a bound. A divisor of zero does not
  raise there: the quotient is inf, -inf or nan by the sign of the dividend, and a
  comparison with nan is false. (Signed zeros are not told apart.)
\<close>

definition quotient_above :: "real \<Rightarrow> real \<Rightarrow> real \<Rightarrow> bool" where
  "quotient_above x y bound = (if y = 0 then 0 < x else bound < x / y)"

definition quotient_below :: "real \<Rightarrow> real \<Rightarrow> real \<Rightarrow> bool" where
  "quotient_below x y bound = (if y = 0 then x < 0 else x / y < bound)"

definition calculate_gann_angle :: "real \<Rightarrow> real \<Rightarrow> real" where
  "calculate_gann_angle current target =
     (let price_change = \<bar>target - current\<bar> / current;
          angle = arctan (price_change * 10) * 180 / pi
      in real_of_int (round (angle * 10)) / 10)"

text \<open>
  What the target generators read from the bar table: the last close, the standard deviation
  of the daily returns and the last volume over the mean volume. The pandas statistics
  themselves are not modelled; their values are the fields of this record, and they are
  numbers (a deviation or a ratio that is nan or inf, as for a table of two bars or of
  zero volumes, is outside the model).
\<close>

record market =
  current_price :: real
  market_volatility :: real
  volume_factor :: real

text \<open>A key support or resistance of the Gann analysis, and a price prediction.\<close>

record key_level =
  k_price :: real
  k_strength :: real
  k_type :: string

record prediction =
  target_price :: real
  direction :: string
  p_type :: string
  confidence :: int

text \<open>
  The two iterations of \<^verbatim>\<open>_calculate_gann_price_targets\<close> over \<^verbatim>\<open>enumerate(supports[:8])\<close> and
  \<^verbatim>\<open>enumerate(resistances[:8])\<close>. \<open>gann_angle\<close> stands for \<^verbatim>\<open>_calculate_gann_angle\<close>, which
  rounds an arc tangent in degrees; it enters the confidence of a support only (the
  descriptive entries of a prediction, where a resistance shows it too, are not
  modelled).
\<close>

definition gann_support_targets ::
    "(real \<Rightarrow> real \<Rightarrow> real) \<Rightarrow> market \<Rightarrow> key_level list \<Rightarrow> prediction list" where
  "gann_support_targets gann_angle m supports =
     concat (map (\<lambda>(i, support).
        if k_price support > 0 \<and> k_price support < current_price m
        then
          let technical_alignment =
                (if gann_angle (current_price m) (k_price support) \<in> {45, 90, 180, 270}
                 then 0.8 else 0.6);
              base_strength = max 0.4 (k_strength support - real i * 0.1)
          in [\<lparr>target_price = k_price support, direction = ''down'',
                p_type = ''gann_'' @ k_type support,
                confidence = calculate_dynamic_confidence ''gann_wheel_angle'' base_strength
                  (market_volatility m) (volume_factor m) technical_alignment\<rparr>]
        else [])
       (zip [0..<length (take 8 supports)] (take 8 supports)))"

definition gann_resistance_targets :: "market \<Rightarrow> key_level list \<Rightarrow> prediction list" where
  "gann_resistance_targets m resistances =
     concat (map (\<lambda>(i, resistance).
        if k_price resistance > 0 \<and> k_price resistance > current_price m
        then [\<lparr>target_price = k_price resistance, direction = ''up'',
               p_type = ''gann_'' @ k_type resistance,
               confidence = min (90 - int i * 5) 95\<rparr>]
        else [])
       (zip [0..<length (take 8 resistances)] (take 8 resistances)))"

text \<open>
  The loop of \<^verbatim>\<open>_calculate_detailed_gann_wheel_levels\<close> over its eight angles. \<open>tan_deg\<close>
  stands for \<^verbatim>\<open>math.tan(math.radians(angle))\<close>.
\<close>

definition gann_angles :: "real list" where
  "gann_angles = [15, 22.5, 30, 45, 60, 67.5, 75, 90]"

definition wheel_tan_value :: "(real \<Rightarrow> real) \<Rightarrow> real \<Rightarrow> real" where
  "wheel_tan_value tan_deg angle = min (if angle \<ge> 90 then 10 else tan_deg angle) 10"

definition wheel_up_target :: "(real \<Rightarrow> real) \<Rightarrow> real \<Rightarrow> real \<Rightarrow> real" where
  "wheel_up_target tan_deg current angle =
     (let up_multiplier = min (wheel_tan_value tan_deg angle * 0.02) 0.5
      in current * (1 + up_multiplier))"

definition wheel_down_target :: "(real \<Rightarrow> real) \<Rightarrow> real \<Rightarrow> real \<Rightarrow> real" where
  "wheel_down_target tan_deg current angle =
     (let down_multiplier = min (wheel_tan_value tan_deg angle * 0.015) 0.4
      in current * (1 - down_multiplier))"

definition detailed_gann_wheel_levels ::
    "(real \<Rightarrow> real) \<Rightarrow> market \<Rightarrow> prediction list" where
  "detailed_gann_wheel_levels tan_deg m =
     concat (map (\<lambda>angle.
        let strength = (if angle \<in> {45, 90} then 0.9 else 0.7);
            technical_alignment = (if angle \<in> {45, 90, 180, 270} then 0.8 else 0.6)
        in [\<lparr>target_price = wheel_up_target tan_deg (current_price m) angle,
              direction = ''up'', p_type = ''gann_wheel_angle'',
              confidence = calculate_dynamic_confidence ''gann_wheel_angle'' strength
                (market_volatility m) (volume_factor m) technical_alignment\<rparr>,
            \<lparr>target_price = wheel_down_target tan_deg (current_price m) angle,
              direction = ''down'', p_type = ''gann_wheel_angle'',
              confidence = calculate_dynamic_confidence ''gann_wheel_angle'' (strength * 0.9)
                (market_volatility m) (volume_factor m) technical_alignment\<rparr>])
       gann_angles)"

text \<open>
  \<^verbatim>\<open>_calculate_fibonacci_targets\<close>: retracements of the range of the last 60 bars, the
  loop body first. The table is not empty when it is called.
\<close>

definition fibonacci_target :: "real \<Rightarrow> real \<Rightarrow> real \<Rightarrow> real \<Rightarrow> prediction list" where
  "fibonacci_target high_price low_price current level =
     (let price_range = high_price - low_price;
          retracement_price = high_price - price_range * level
      in if quotient_above \<bar>retracement_price - current\<bar> current 0.02
         then [\<lparr>target_price = retracement_price,
                direction = (if retracement_price < current then ''down'' else ''up''),
                p_type = ''fibonacci_retracement'',
                confidence = (if level \<in> {0.382, 0.618} then 70 else 60)\<rparr>]
         else [])"

definition fibonacci_targets :: "bar list \<Rightarrow> prediction list" where
  "fibonacci_targets data =
     (let recent_data = drop (length data - 60) data;
          high_price = Max (set (map High recent_data));
          low_price = Min (set (map Low recent_data));
          current = Close (last data)
      in concat (map (fibonacci_target high_price low_price current)
           [0.236, 0.382, 0.5, 0.618, 0.786]))"

text \<open>
  \<^verbatim>\<open>_calculate_volume_price_targets\<close>. A current signal is read through substring tests on
  its type (the Chinese words for divergence, bottom divergence and top divergence); the
  datatype holds their outcome. The annualised volatility and the four rolling means
  of the volume are fields of \<open>volume_state\<close>; \<^verbatim>\<open>rolling(k).mean().iloc[-1]\<close> is nan for a
  table of fewer than k bars, which is \<open>None\<close> here.
\<close>

datatype signal_kind = Bottom_divergence | Top_divergence | Other_signal

record volume_signal =
  s_kind :: signal_kind
  s_strength :: real

record volume_state =
  volatility :: real
  current_volume :: real
  avg_volume_5 :: "real option"
  avg_volume_10 :: "real option"
  avg_volume_20 :: "real option"
  avg_volume_60 :: "real option"

text \<open>
  The targets of one signal. The dictionary of a divergence target holds
  \<^verbatim>\<open>int(avg_volume_5)\<close>, \<^verbatim>\<open>int(avg_volume_20)\<close> and \<^verbatim>\<open>int(avg_volume_60)\<close>, and \<^verbatim>\<open>int\<close> of nan
  raises \<^verbatim>\<open>ValueError\<close>: a divergence signal on a table of fewer than 60 bars ends the
  whole computation with that exception. The confidence is computed before; with the
  means present the volume factor is the last volume over the 20-bar mean (a mean of
  zero, where the source goes on with inf or nan, is not modelled).
\<close>

definition divergence_targets ::
    "real \<Rightarrow> volume_state \<Rightarrow> volume_signal \<Rightarrow> py_error + prediction list" where
  "divergence_targets current v signal =
     (if s_kind signal = Other_signal then Inr []
      else if avg_volume_5 v = None \<or> avg_volume_20 v = None \<or> avg_volume_60 v = None
      then Inl (ValueError ''cannot convert float NaN to integer'')
      else
        let volume_factor = current_volume v / the (avg_volume_20 v) in
        Inr (if s_kind signal = Bottom_divergence
          then map (\<lambda>(j, factor, name).
                 \<lparr>target_price = current * (1 + volatility v * factor), direction = ''up'',
                  p_type = name,
                  confidence = calculate_dynamic_confidence ''volume_breakout''
                    (max 0.3 (s_strength signal - real j * 0.1)) (volatility v)
                    volume_factor 0.7\<rparr>)
            [(0, 0.3, ''volume_divergence_level_1''), (1, 0.5, ''volume_divergence_level_2''),
             (2, 0.8, ''volume_divergence_level_3'')]
          else map (\<lambda>(j, factor, name).
                 \<lparr>target_price = current * (1 - volatility v * factor), direction = ''down'',
                  p_type = name,
                  confidence = calculate_dynamic_confidence ''volume_breakout''
                    (max 0.3 (s_strength signal - real j * 0.1)) (volatility v)
                    volume_factor 0.6\<rparr>)
            [(0, 0.25, ''volume_divergence_level_1''), (1, 0.4, ''volume_divergence_level_2''),
             (2, 0.6, ''volume_divergence_level_3'')]))"

text \<open>The iteration over the current signals; the first exception ends it.\<close>

primrec signal_targets ::
    "real \<Rightarrow> volume_state \<Rightarrow> volume_signal list \<Rightarrow> py_error + prediction list" where
  "signal_targets current v [] = Inr []"
| "signal_targets current v (signal # signals) =
     (case divergence_targets current v signal of
        Inl e \<Rightarrow> Inl e
      | Inr targets \<Rightarrow>
          (case signal_targets current v signals of
             Inl e \<Rightarrow> Inl e
           | Inr later \<Rightarrow> Inr (targets @ later)))"

text \<open>
  The three volume ratios (against the 20-, 10- and 5-bar means) in the order of the
  source's dictionary; only the last uses the steeper multipliers. A ratio against a
  mean that is nan is nan and exceeds nothing. The names of the three volume types are
  Chinese in the source; \<open>level_number j\<close> is \<^verbatim>\<open>str(j + 1)\<close> for the three positions of a
  multiplier list.
\<close>

definition level_number :: "nat \<Rightarrow> string" where
  "level_number j = (if j = 0 then ''1'' else if j = 1 then ''2'' else ''3'')"

definition ratio_above :: "real \<Rightarrow> real option \<Rightarrow> real \<Rightarrow> bool" where
  "ratio_above volume_now average bound =
     (case average of None \<Rightarrow> False | Some a \<Rightarrow> quotient_above volume_now a bound)"

definition breakout_level :: "real \<Rightarrow> volume_state \<Rightarrow> string \<Rightarrow> nat \<times> real \<Rightarrow> prediction" where
  "breakout_level current v volume_type level =
     (case level of (j, multiplier) \<Rightarrow>
        \<lparr>target_price = current * (1 + volatility v * multiplier), direction = ''up'',
         p_type = ''volume_breakout_'' @ volume_type @ ''_level_'' @ level_number j,
         confidence = min (80 - int j * 10) 85\<rparr>)"

definition breakout_targets :: "real \<Rightarrow> volume_state \<Rightarrow> prediction list" where
  "breakout_targets current v =
     concat (map (\<lambda>(volume_type, average, multipliers).
        if ratio_above (current_volume v) average 1.5
        then map (breakout_level current v volume_type)
               (zip [0..<length multipliers] multipliers)
        else [])
       [(''surge'', avg_volume_20 v, [0.15, 0.25, 0.4]),
        (''mild_surge'', avg_volume_10 v, [0.15, 0.25, 0.4]),
        (''sharp_surge'', avg_volume_5 v, [0.2, 0.35, 0.5])])"

text \<open>
  \<^verbatim>\<open>_calculate_detailed_volume_price_levels\<close>: \<open>closes\<close> are the closing prices of the rows
  that \<^verbatim>\<open>data.nlargest(20, 'Volume')\<close> returns, largest volume first; the rank of a row is
  the number of rows minus its position.
\<close>

definition volume_price_levels :: "real \<Rightarrow> real list \<Rightarrow> prediction list" where
  "volume_price_levels current closes =
     map (\<lambda>(k, close).
            \<lparr>target_price = close,
             direction = (if close > current then ''up'' else ''down''),
             p_type = ''volume_price_memory'',
             confidence = min 90 (70 + (int (length closes) - int k))\<rparr>)
       (zip [0..<length closes] closes)"

definition volume_price_targets ::
    "real \<Rightarrow> volume_state \<Rightarrow> volume_signal list \<Rightarrow> real list
       \<Rightarrow> py_error + prediction list" where
  "volume_price_targets current v current_signals closes =
     (case signal_targets current v current_signals of
        Inl e \<Rightarrow> Inl e
      | Inr divergences \<Rightarrow>
          Inr (divergences @ breakout_targets current v @ volume_price_levels current closes))"

text \<open>
  \<^verbatim>\<open>_calculate_support_resistance_targets\<close>. The points come from
  \<^verbatim>\<open>_calculate_pivot_points\<close> (not modelled); the loop passes the confidence of a point as
  the strength. \<^verbatim>\<open>point.get('touches', 1)\<close> reads a key that a point does not have at its top
  level, so the technical alignment is always 0.4.
\<close>

record pivot_point =
  pp_price :: real
  pp_type :: string
  pp_confidence :: int

definition support_resistance_targets :: "market \<Rightarrow> pivot_point list \<Rightarrow> prediction list" where
  "support_resistance_targets m pivot_points =
     concat (map (\<lambda>point.
        if quotient_above \<bar>pp_price point - current_price m\<bar> (current_price m) 0.015
        then [\<lparr>target_price = pp_price point,
               direction = (if pp_price point < current_price m then ''down'' else ''up''),
               p_type = ''pivot_'' @ pp_type point,
               confidence = calculate_dynamic_confidence ''support_resistance''
                 (real_of_int (pp_confidence point)) (market_volatility m) (volume_factor m)
                 0.4\<rparr>]
        else [])
       pivot_points)"

text \<open>
  \<^verbatim>\<open>_merge_similar_predictions\<close>: a prediction within 1.5% of an earlier one replaces it when
  its confidence is higher, and is dropped otherwise. An earlier target of zero (a
  \<^verbatim>\<open>numpy.float64\<close>: the Gann levels, the only Python floats, are positive) has nothing
  within 1.5% of it.
\<close>

fun merge_prediction :: "prediction \<Rightarrow> prediction list \<Rightarrow> prediction list" where
  "merge_prediction pred [] = [pred]"
| "merge_prediction pred (existing # merged) =
     (if quotient_below \<bar>target_price pred - target_price existing\<bar> (target_price existing)
           0.015
      then (if confidence pred > confidence existing then pred else existing) # merged
      else existing # merge_prediction pred merged)"

definition merge_similar_predictions :: "prediction list \<Rightarrow> prediction list" where
  "merge_similar_predictions predictions =
     foldl (\<lambda>merged pred. merge_prediction pred merged) [] predictions"

text \<open>
  \<^verbatim>\<open>_calculate_key_price_levels\<close>: the candidates of the four models in the order of the
  source, merged, sorted by confidence (descending, a stable sort) and cut to twelve. It
  has no handler: an exception of the volume model leaves it.
\<close>

record prediction_inputs =
  in_market :: market
  in_volume :: volume_state
  key_supports :: "key_level list"
  key_resistances :: "key_level list"
  current_signals :: "volume_signal list"
  top_volume_closes :: "real list"
  pivot_points :: "pivot_point list"

definition gann_price_targets ::
    "(real \<Rightarrow> real \<Rightarrow> real) \<Rightarrow> (real \<Rightarrow> real) \<Rightarrow> market \<Rightarrow> key_level list
       \<Rightarrow> key_level list \<Rightarrow> prediction list" where
  "gann_price_targets gann_angle tan_deg m supports resistances =
     gann_support_targets gann_angle m supports
     @ gann_resistance_targets m resistances
     @ detailed_gann_wheel_levels tan_deg m"

definition candidate_predictions ::
    "(real \<Rightarrow> real \<Rightarrow> real) \<Rightarrow> (real \<Rightarrow> real) \<Rightarrow> prediction_inputs \<Rightarrow> bar list
       \<Rightarrow> py_error + prediction list" where
  "candidate_predictions gann_angle tan_deg inp data =
     (let gann_predictions = gann_price_targets gann_angle tan_deg (in_market inp)
            (key_supports inp) (key_resistances inp)
      in case volume_price_targets (current_price (in_market inp)) (in_volume inp)
                (current_signals inp) (top_volume_closes inp) of
           Inl e \<Rightarrow> Inl e
         | Inr volume_predictions \<Rightarrow>
             Inr (gann_predictions @ volume_predictions @ fibonacci_targets data
                  @ support_resistance_targets (in_market inp) (pivot_points inp)))"

definition calculate_key_price_levels ::
    "(real \<Rightarrow> real \<Rightarrow> real) \<Rightarrow> (real \<Rightarrow> real) \<Rightarrow> prediction_inputs \<Rightarrow> bar list
       \<Rightarrow> py_error + prediction list" where
  "calculate_key_price_levels gann_angle tan_deg inp data =
     (case candidate_predictions gann_angle tan_deg inp data of
        Inl e \<Rightarrow> Inl e
      | Inr predictions \<Rightarrow>
          Inr (take 12 (sort_key (\<lambda>p. - confidence p)
                 (merge_similar_predictions predictions))))"

text \<open>Two markets that differ in volatility only, and one key level on each side.\<close>

definition calm_market :: market where
  "calm_market = \<lparr>current_price = 100, market_volatility = 0.01, volume_factor = 1\<rparr>"

definition wild_market :: market where
  "wild_market = \<lparr>current_price = 100, market_volatility = 0.08, volume_factor = 1\<rparr>"

definition support_90 :: key_level where
  "support_90 = \<lparr>k_price = 90, k_strength = 0.9, k_type = ''pivot_low''\<rparr>"

definition resistance_110 :: key_level where
  "resistance_110 = \<lparr>k_price = 110, k_strength = 0.9, k_type = ''pivot_high''\<rparr>"

definition calm_inputs :: prediction_inputs where
  "calm_inputs =
     \<lparr>in_market = calm_market,
      in_volume = \<lparr>volatility = 0.2, current_volume = 2000, avg_volume_5 = Some 1000,
                   avg_volume_10 = Some 1000, avg_volume_20 = Some 1000,
                   avg_volume_60 = Some 1000\<rparr>,
      key_supports = [support_90], key_resistances = [resistance_110],
      current_signals = [\<lparr>s_kind = Bottom_divergence, s_strength = 0.8\<rparr>],
      top_volume_closes = [95, 104],
      pivot_points = [\<lparr>pp_price = 120, pp_type = ''pivot_resistance'', pp_confidence = 75\<rparr>]\<rparr>"

section \<open>Angle lines\<close>

text \<open>
  \<^verbatim>\<open>GannWheel._calculate_gann_angle_line\<close> (gann_wheel.py): the slope of the line, the price
  it predicts for each later bar, and the count of bars that touch it. \<open>tan_deg\<close> stands
  for \<^verbatim>\<open>math.tan(math.radians(angle))\<close>; \<open>start_index\<close> is the position of the start date.
\<close>

definition price_angles :: "real list" where
  "price_angles = [15, 30, 45, 60, 75, 90, 105, 120, 135, 150, 165, 180]"

definition angle_line_slope :: "(real \<Rightarrow> real) \<Rightarrow> real \<Rightarrow> string \<Rightarrow> real" where
  "angle_line_slope tan_deg angle point_type =
     (if angle = 45 then (if point_type = ''low'' then 1 else - 1)
      else if angle = 26.25 then (if point_type = ''low'' then 2 else - 2)
      else if angle = 63.75 then (if point_type = ''low'' then 0.5 else - 0.5)
      else (if point_type = ''low'' then tan_deg angle else - tan_deg angle))"

definition predicted_price :: "real \<Rightarrow> real \<Rightarrow> nat \<Rightarrow> real" where
  "predicted_price start_price slope days_diff =
     start_price + slope * real days_diff * start_price * 0.01"

record angle_line =
  al_start_price :: real
  al_angle :: real
  al_point_type :: string
  al_slope :: real
  al_strength :: real
  al_touches :: nat
  al_line_points :: "(int \<times> real \<times> real) list"

definition calculate_gann_angle_line ::
    "(real \<Rightarrow> real) \<Rightarrow> real \<Rightarrow> bar list \<Rightarrow> nat \<Rightarrow> real \<Rightarrow> real \<Rightarrow> string \<Rightarrow> angle_line" where
  "calculate_gann_angle_line tan_deg tolerance data start_index start_price angle point_type =
     (let slope = angle_line_slope tan_deg angle point_type;
          line_points = concat (map (\<lambda>i.
             let predicted = predicted_price start_price slope (i - start_index);
                 actual_high = High (data ! i);
                 actual_low = Low (data ! i);
                 tolerance_range = predicted * tolerance
             in if actual_low \<le> predicted + tolerance_range \<and>
                   actual_high \<ge> predicted - tolerance_range
                then [(Date (data ! i), predicted, (actual_high + actual_low) / 2)]
                else [])
            [start_index + 1..<length data]);
          touches = length line_points
      in \<lparr>al_start_price = start_price, al_angle = angle, al_point_type = point_type,
          al_slope = slope,
          al_strength = (if length data - start_index > 0
             then real touches / real (length data - start_index) else 0),
          al_touches = touches, al_line_points = line_points\<rparr>)"

section \<open>Result dictionaries\<close>

text \<open>
  The values of a result dictionary. A dictionary is an association list in insertion
  order, as Python keeps it.
\<close>

datatype pyval =
    PNone
  | PInt int
  | PNum real
  | PStr string
  | PList "pyval list"
  | PDict "(string \<times> pyval) list"

text \<open>
  The DataFrame as both engines see it: its column labels and its rows, each row with its
  date. \<^verbatim>\<open>data.empty\<close> holds when either axis has length 0; \<^verbatim>\<open>data.sort_index()\<close> returns a
  sorted copy.
\<close>

record data_frame =
  df_columns :: "string list"
  df_rows :: "(int \<times> real list) list"

definition df_empty :: "data_frame \<Rightarrow> bool" where
  "df_empty data = (df_columns data = [] \<or> df_rows data = [])"

definition sort_index :: "data_frame \<Rightarrow> data_frame" where
  "sort_index data = data\<lparr>df_rows := sort_key fst (df_rows data)\<rparr>"

definition data_range :: "data_frame \<Rightarrow> pyval" where
  "data_range data =
     PDict [(''start_date'', PInt (fst (hd (df_rows data)))),
            (''end_date'', PInt (fst (last (df_rows data)))),
            (''total_days'', PInt (int (length (df_rows data))))]"

text \<open>
  \<^verbatim>\<open>try: ... except Exception as e: logger.error(...); return default\<close>, the frame of every
  sub-analysis method.
\<close>

definition guarded :: "py_error + pyval \<Rightarrow> pyval \<Rightarrow> pyval" where
  "guarded body fallback = (case body of Inl e \<Rightarrow> fallback | Inr result \<Rightarrow> result)"

section \<open>The Gann engine\<close>

text \<open>
  The bodies of the seven sub-analysis methods of gann_wheel.py, each the code inside
  its \<^verbatim>\<open>try\<close>. They read the analyzer's configuration and the table;
  \<^verbatim>\<open>_generate_predictions\<close> also reads the results of the time, price and angle stages.
\<close>

record gann_bodies =
  time_cycles_body :: "data_frame \<Rightarrow> py_error + pyval"
  price_cycles_body :: "data_frame \<Rightarrow> py_error + pyval"
  gann_angles_body :: "data_frame \<Rightarrow> py_error + pyval"
  gann_square_body :: "data_frame \<Rightarrow> py_error + pyval"
  resonance_body :: "data_frame \<Rightarrow> py_error + pyval"
  key_levels_body :: "data_frame \<Rightarrow> py_error + pyval"
  predictions_body :: "data_frame \<Rightarrow> pyval \<Rightarrow> pyval \<Rightarrow> pyval \<Rightarrow> py_error + pyval"

definition time_analysis_default :: pyval where
  "time_analysis_default =
     PDict [(''cycles_found'', PList []), (''dominant_cycle'', PNone),
            (''next_time_windows'', PList [])]"

definition price_analysis_default :: pyval where
  "price_analysis_default =
     PDict [(''price_range'', PInt 0), (''price_center'', PInt 0), (''key_levels'', PList []),
            (''current_position'', PDict [])]"

definition angle_analysis_default :: pyval where
  "angle_analysis_default =
     PDict [(''angle_lines'', PList []), (''current_angle_support'', PNone),
            (''current_angle_resistance'', PNone)]"

definition square_analysis_default :: pyval where
  "square_analysis_default =
     PDict [(''square_center'', PInt 0), (''square_levels'', PList []),
            (''current_position'', PDict []), (''next_levels'', PList [])]"

definition resonance_analysis_default :: pyval where
  "resonance_analysis_default =
     PDict [(''resonance_points'', PList []), (''strongest_resonance'', PNone),
            (''next_resonance_prediction'', PNone)]"

definition key_levels_default :: pyval where
  "key_levels_default =
     PDict [(''current_price'', PInt 0), (''key_supports'', PList []),
            (''key_resistances'', PList []), (''strongest_support'', PNone),
            (''strongest_resistance'', PNone)]"

definition predictions_default :: pyval where
  "predictions_default =
     PDict [(''current_price'', PInt 0), (''current_date'', PNone),
            (''combined_prediction'', PDict [])]"

definition analyze_time_cycles :: "gann_bodies \<Rightarrow> data_frame \<Rightarrow> pyval" where
  "analyze_time_cycles b data = guarded (time_cycles_body b data) time_analysis_default"

definition analyze_price_cycles :: "gann_bodies \<Rightarrow> data_frame \<Rightarrow> pyval" where
  "analyze_price_cycles b data = guarded (price_cycles_body b data) price_analysis_default"

definition analyze_gann_angles :: "gann_bodies \<Rightarrow> data_frame \<Rightarrow> pyval" where
  "analyze_gann_angles b data = guarded (gann_angles_body b data) angle_analysis_default"

definition analyze_gann_square :: "gann_bodies \<Rightarrow> data_frame \<Rightarrow> pyval" where
  "analyze_gann_square b data = guarded (gann_square_body b data) square_analysis_default"

definition analyze_time_price_resonance :: "gann_bodies \<Rightarrow> data_frame \<Rightarrow> pyval" where
  "analyze_time_price_resonance b data =
     guarded (resonance_body b data) resonance_analysis_default"

definition calculate_key_levels :: "gann_bodies \<Rightarrow> data_frame \<Rightarrow> pyval" where
  "calculate_key_levels b data = guarded (key_levels_body b data) key_levels_default"

definition generate_predictions ::
    "gann_bodies \<Rightarrow> data_frame \<Rightarrow> pyval \<Rightarrow> pyval \<Rightarrow> pyval \<Rightarrow> pyval" where
  "generate_predictions b data time_analysis price_analysis angle_analysis =
     guarded (predictions_body b data time_analysis price_analysis angle_analysis)
       predictions_default"

text \<open>
  \<^verbatim>\<open>GannWheel.analyze_stock\<close>. \<open>now\<close> is the reading of \<^verbatim>\<open>datetime.now()\<close>. The only check
  before the stages is \<^verbatim>\<open>data.empty\<close>; the outer handler logs and re-raises. The message
  of the \<^verbatim>\<open>ValueError\<close> is Chinese in the source.
\<close>

definition gann_analyze_stock ::
    "gann_bodies \<Rightarrow> int \<Rightarrow> string \<Rightarrow> data_frame \<Rightarrow> py_error + (string \<times> pyval) list" where
  "gann_analyze_stock b now symbol data0 =
     (if df_empty data0 then Inl (ValueError ''stock data is empty'')
      else
        let data = sort_index data0;
            time_analysis = analyze_time_cycles b data;
            price_analysis = analyze_price_cycles b data;
            angle_analysis = analyze_gann_angles b data;
            square_analysis = analyze_gann_square b data;
            resonance_analysis = analyze_time_price_resonance b data;
            key_levels = calculate_key_levels b data;
            predictions = generate_predictions b data time_analysis price_analysis
              angle_analysis
        in Inr [(''symbol'', PStr symbol), (''analysis_date'', PInt now),
                (''data_range'', data_range data),
                (''time_analysis'', time_analysis), (''price_analysis'', price_analysis),
                (''angle_analysis'', angle_analysis), (''square_analysis'', square_analysis),
                (''resonance_analysis'', resonance_analysis), (''key_levels'', key_levels),
                (''predictions'', predictions)])"


section \<open>The volume-price engine\<close>

text \<open>
  The bodies of the nine sub-analysis methods of volume_price_analyzer.py. The score
  reads five earlier stages; the signals read four earlier stages and, for the
  recommendation, the score.
\<close>

record vp_bodies =
  basic_indicators_body :: "data_frame \<Rightarrow> py_error + pyval"
  relation_body :: "data_frame \<Rightarrow> py_error + pyval"
  divergence_body :: "data_frame \<Rightarrow> py_error + pyval"
  patterns_body :: "data_frame \<Rightarrow> py_error + pyval"
  coordination_body :: "data_frame \<Rightarrow> py_error + pyval"
  abnormal_body :: "data_frame \<Rightarrow> py_error + pyval"
  trend_body :: "data_frame \<Rightarrow> py_error + pyval"
  score_body :: "pyval \<Rightarrow> pyval \<Rightarrow> pyval \<Rightarrow> pyval \<Rightarrow> pyval \<Rightarrow> py_error + pyval"
  signals_body ::
    "data_frame \<Rightarrow> pyval \<Rightarrow> pyval \<Rightarrow> pyval \<Rightarrow> pyval \<Rightarrow> pyval \<Rightarrow> py_error + pyval"

definition score_default :: pyval where
  "score_default = PDict [(''comprehensive_score'', PInt 50), (''rating'', PStr ''C'')]"

definition required_columns :: "string list" where
  "required_columns = [''Open'', ''High'', ''Low'', ''Close'', ''Volume'']"

definition missing_columns :: "data_frame \<Rightarrow> string list" where
  "missing_columns data = filter (\<lambda>col. col \<notin> set (df_columns data)) required_columns"

text \<open>
  The nine sub-analysis methods: every one but the score returns the empty dictionary on
  an exception. (The scoring and the divergence stage are modelled in detail in the
  sections on the comprehensive score and on divergence detection; here their bodies are
  parameters like the others.)
\<close>

definition calculate_basic_indicators :: "vp_bodies \<Rightarrow> data_frame \<Rightarrow> pyval" where
  "calculate_basic_indicators b data = guarded (basic_indicators_body b data) (PDict [])"

definition analyze_volume_price_relation :: "vp_bodies \<Rightarrow> data_frame \<Rightarrow> pyval" where
  "analyze_volume_price_relation b data = guarded (relation_body b data) (PDict [])"

definition analyze_divergence_stage :: "vp_bodies \<Rightarrow> data_frame \<Rightarrow> pyval" where
  "analyze_divergence_stage b data = guarded (divergence_body b data) (PDict [])"

definition identify_volume_patterns :: "vp_bodies \<Rightarrow> data_frame \<Rightarrow> pyval" where
  "identify_volume_patterns b data = guarded (patterns_body b data) (PDict [])"

definition analyze_price_volume_coordination :: "vp_bodies \<Rightarrow> data_frame \<Rightarrow> pyval" where
  "analyze_price_volume_coordination b data = guarded (coordination_body b data) (PDict [])"

definition analyze_abnormal_volume :: "vp_bodies \<Rightarrow> data_frame \<Rightarrow> pyval" where
  "analyze_abnormal_volume b data = guarded (abnormal_body b data) (PDict [])"

definition analyze_volume_price_trend :: "vp_bodies \<Rightarrow> data_frame \<Rightarrow> pyval" where
  "analyze_volume_price_trend b data = guarded (trend_body b data) (PDict [])"

definition comprehensive_score_stage ::
    "vp_bodies \<Rightarrow> pyval \<Rightarrow> pyval \<Rightarrow> pyval \<Rightarrow> pyval \<Rightarrow> pyval \<Rightarrow> pyval" where
  "comprehensive_score_stage b relation divergence abnormal coordination trend =
     guarded (score_body b relation divergence abnormal coordination trend) score_default"

definition generate_trading_signals ::
    "vp_bodies \<Rightarrow> data_frame \<Rightarrow> pyval \<Rightarrow> pyval \<Rightarrow> pyval \<Rightarrow> pyval \<Rightarrow> pyval \<Rightarrow> pyval" where
  "generate_trading_signals b data relation divergence patterns abnormal score =
     guarded (signals_body b data relation divergence patterns abnormal score) (PDict [])"

text \<open>
  \<^verbatim>\<open>VolumePriceAnalyzer.analyze_stock\<close>: the table must not be empty and must have the five
  OHLCV columns.
\<close>

definition vp_analyze_stock ::
    "vp_bodies \<Rightarrow> int \<Rightarrow> string \<Rightarrow> data_frame \<Rightarrow> py_error + (string \<times> pyval) list" where
  "vp_analyze_stock b now symbol data0 =
     (if df_empty data0 then Inl (ValueError ''stock data is empty'')
      else if missing_columns data0 \<noteq> [] then Inl (ValueError ''missing required columns'')
      else
        let data = sort_index data0;
            basic_indicators = calculate_basic_indicators b data;
            volume_price_relation = analyze_volume_price_relation b data;
            divergence_analysis = analyze_divergence_stage b data;
            volume_patterns = identify_volume_patterns b data;
            price_volume_coordination = analyze_price_volume_coordination b data;
            abnormal_volume = analyze_abnormal_volume b data;
            trend_analysis = analyze_volume_price_trend b data;
            comprehensive_score =
              comprehensive_score_stage b volume_price_relation divergence_analysis
                abnormal_volume price_volume_coordination trend_analysis;
            trading_signals =
              generate_trading_signals b data volume_price_relation divergence_analysis
                volume_patterns abnormal_volume comprehensive_score
        in Inr [(''symbol'', PStr symbol), (''analysis_date'', PInt now),
                (''data_range'', data_range data),
                (''basic_indicators'', basic_indicators),
                (''volume_price_relation'', volume_price_relation),
                (''divergence_analysis'', divergence_analysis),
                (''volume_patterns'', volume_patterns),
                (''price_volume_coordination'', price_volume_coordination),
                (''abnormal_volume'', abnormal_volume),
                (''trend_analysis'', trend_analysis),
                (''comprehensive_score'', comprehensive_score),
                (''trading_signals'', trading_signals)])"






section \<open>Properties of the pivot finder\<close>

lemma pivot_loop_fst:
  "fst (pivot_loop data w is) = map (high_pivot data) (filter (is_local_high data w) is)"
  by (induction "is") (auto split: prod.splits)

lemma pivot_loop_snd:
  "snd (pivot_loop data w is) = map (low_pivot data) (filter (is_local_low data w) is)"
  by (induction "is") (auto split: prod.splits)

lemma extremes_loop_eq:
  "extremes_loop test mk is = map mk (filter test is)"
  by (induction "is") auto

lemma window_range: "set [1..<w + 1] = {j. 1 \<le> j \<and> j \<le> w}"
  by auto

lemma is_local_high_iff:
  "is_local_high data w i \<longleftrightarrow>
     (\<forall>j. 1 \<le> j \<and> j \<le> w \<longrightarrow>
        High (data ! (i - j)) \<le> High (data ! i) \<and> High (data ! (i + j)) \<le> High (data ! i))"
  unfolding is_local_high_def list_all_iff window_range
  by blast

lemma is_local_low_iff:
  "is_local_low data w i \<longleftrightarrow>
     (\<forall>j. 1 \<le> j \<and> j \<le> w \<longrightarrow>
        Low (data ! i) \<le> Low (data ! (i - j)) \<and> Low (data ! i) \<le> Low (data ! (i + j)))"
  unfolding is_local_low_def list_all_iff window_range
  by blast

lemma filter_upt_single:
  assumes "a \<le> k" "k < b" "P k" "\<And>i. a \<le> i \<Longrightarrow> i < b \<Longrightarrow> i \<noteq> k \<Longrightarrow> \<not> P i"
  shows "filter P [a..<b] = [k]"
proof -
  have "[a..<b] = [a..<k] @ k # [Suc k..<b]"
    using assms(1,2) by (metis le_add_diff_inverse less_imp_le_nat upt_add_eq_append upt_conv_Cons)
  moreover have "filter P [a..<k] = []" using assms by (auto simp: filter_empty_conv)
  moreover have "filter P [Suc k..<b] = []" using assms by (auto simp: filter_empty_conv)
  ultimately show ?thesis using assms(3) by simp
qed

lemma rising:
  assumes "\<And>i. i < k \<Longrightarrow> f i < (f (Suc i) :: real)"
  shows "i \<le> j \<Longrightarrow> j \<le> k \<Longrightarrow> f i \<le> f j"
proof (induction j)
  case 0 then show ?case by simp
next
  case (Suc j)
  show ?case
  proof (cases "i = Suc j")
    case True then show ?thesis by simp
  next
    case False
    then have "i \<le> j" using Suc.prems by simp
    then have "f i \<le> f j" using Suc by simp
    moreover have "f j < f (Suc j)" using assms Suc.prems by simp
    ultimately show ?thesis by simp
  qed
qed

lemma falling:
  assumes "\<And>i. k \<le> i \<Longrightarrow> Suc i < n \<Longrightarrow> f (Suc i) < (f i :: real)"
  shows "k \<le> i \<Longrightarrow> i \<le> j \<Longrightarrow> j < n \<Longrightarrow> f j \<le> f i"
proof (induction j)
  case 0 then show ?case by simp
next
  case (Suc j)
  show ?case
  proof (cases "i = Suc j")
    case True then show ?thesis by simp
  next
    case False
    then have ij: "i \<le> j" using Suc.prems by simp
    then have "f j \<le> f i" using Suc by simp
    moreover have "f (Suc j) < f j" using assms[of j] Suc.prems ij by simp
    ultimately show ?thesis by simp
  qed
qed

lemma unimodal_highs:
  assumes w: "1 \<le> w" "w \<le> k" "k + w < length data"
    and up: "\<And>i. i < k \<Longrightarrow> High (data ! i) < High (data ! Suc i)"
    and down: "\<And>i. k \<le> i \<Longrightarrow> Suc i < length data \<Longrightarrow> High (data ! Suc i) < High (data ! i)"
  shows "filter (is_local_high data w) [w..<length data - w] = [k]"
proof (rule filter_upt_single)
  show "w \<le> k" by fact
  show "k < length data - w" using w by simp
  show "is_local_high data w k"
    unfolding is_local_high_iff
  proof (intro allI impI conjI)
    fix j assume j: "1 \<le> j \<and> j \<le> w"
    show "High (data ! (k - j)) \<le> High (data ! k)"
      using rising[of k "\<lambda>i. High (data ! i)" "k - j" k] up by simp
    show "High (data ! (k + j)) \<le> High (data ! k)"
      using falling[of k "length data" "\<lambda>i. High (data ! i)" k "k + j"] down j w by simp
  qed
next
  fix i assume i: "w \<le> i" "i < length data - w" "i \<noteq> k"
  show "\<not> is_local_high data w i"
  proof (cases "i < k")
    case True
    then have "High (data ! i) < High (data ! (i + 1))" using up by simp
    then show ?thesis unfolding is_local_high_iff using w(1) by (metis le_refl not_less)
  next
    case False
    then have "k \<le> i - 1" "Suc (i - 1) = i" using i by simp_all
    then have "High (data ! i) < High (data ! (i - 1))" using down[of "i - 1"] i by simp
    then show ?thesis unfolding is_local_high_iff using w(1) by (metis le_refl not_less)
  qed
qed

lemma highs_mem:
  "p \<in> set (fst (find_pivot_points data w)) \<longleftrightarrow>
     (\<exists>i. w \<le> i \<and> i + w < length data \<and>
        (\<forall>j. 1 \<le> j \<and> j \<le> w \<longrightarrow>
           High (data ! (i - j)) \<le> High (data ! i) \<and> High (data ! (i + j)) \<le> High (data ! i)) \<and>
        p = high_pivot data i)"
proof -
  have "p \<in> set (fst (find_pivot_points data w)) \<longleftrightarrow>
        (\<exists>i. w \<le> i \<and> i < length data - w \<and> is_local_high data w i \<and> p = high_pivot data i)"
    unfolding find_pivot_points_def pivot_loop_fst by auto
  then show ?thesis
    unfolding is_local_high_iff by (simp add: less_diff_conv)
qed

lemma lows_mem:
  "p \<in> set (snd (find_pivot_points data w)) \<longleftrightarrow>
     (\<exists>i. w \<le> i \<and> i + w < length data \<and>
        (\<forall>j. 1 \<le> j \<and> j \<le> w \<longrightarrow>
           Low (data ! i) \<le> Low (data ! (i - j)) \<and> Low (data ! i) \<le> Low (data ! (i + j))) \<and>
        p = low_pivot data i)"
proof -
  have "p \<in> set (snd (find_pivot_points data w)) \<longleftrightarrow>
        (\<exists>i. w \<le> i \<and> i < length data - w \<and> is_local_low data w i \<and> p = low_pivot data i)"
    unfolding find_pivot_points_def pivot_loop_snd by auto
  then show ?thesis
    unfolding is_local_low_iff by (simp add: less_diff_conv)
qed

lemma high_extremes_mem:
  "e \<in> set (find_price_extremes data ''high'' w) \<longleftrightarrow>
     (\<exists>i. w \<le> i \<and> i + w < length data \<and>
        (\<forall>j. 1 \<le> j \<and> j \<le> w \<longrightarrow>
           High (data ! (i - j)) \<le> High (data ! i) \<and> High (data ! (i + j)) \<le> High (data ! i)) \<and>
        e = high_extreme data i)"
proof -
  have "e \<in> set (find_price_extremes data ''high'' w) \<longleftrightarrow>
        (\<exists>i. w \<le> i \<and> i < length data - w \<and> is_local_high data w i \<and> e = high_extreme data i)"
    unfolding find_price_extremes_def extremes_loop_eq by auto
  then show ?thesis
    unfolding is_local_high_iff by (simp add: less_diff_conv)
qed

lemma low_extremes_mem:
  "e \<in> set (find_price_extremes data ''low'' w) \<longleftrightarrow>
     (\<exists>i. w \<le> i \<and> i + w < length data \<and>
        (\<forall>j. 1 \<le> j \<and> j \<le> w \<longrightarrow>
           Low (data ! i) \<le> Low (data ! (i - j)) \<and> Low (data ! i) \<le> Low (data ! (i + j))) \<and>
        e = low_extreme data i)"
proof -
  have "e \<in> set (find_price_extremes data ''low'' w) \<longleftrightarrow>
        (\<exists>i. w \<le> i \<and> i < length data - w \<and> is_local_low data w i \<and> e = low_extreme data i)"
    unfolding find_price_extremes_def extremes_loop_eq by auto
  then show ?thesis
    unfolding is_local_low_iff by (simp add: less_diff_conv)
qed

lemma pivots_inside:
  assumes "p \<in> set (fst (find_pivot_points data w)) \<union> set (snd (find_pivot_points data w))"
  shows "w \<le> index p \<and> index p + w < length data"
  using assms unfolding Un_iff highs_mem lows_mem
  by (auto simp: high_pivot_def low_pivot_def)

lemma extremes_inside:
  assumes "e \<in> set (find_price_extremes data kind w)"
  shows "w \<le> index e \<and> index e + w < length data"
proof (cases "kind = ''high''")
  case True
  then show ?thesis using assms unfolding True high_extremes_mem by (auto simp: high_extreme_def)
next
  case False
  then have "find_price_extremes data kind w = find_price_extremes data ''low'' w"
    by (simp add: find_price_extremes_def)
  then have "e \<in> set (find_price_extremes data ''low'' w)" using assms by simp
  then show ?thesis unfolding low_extremes_mem by (auto simp: low_extreme_def)
qed

lemma unimodal_pivots:
  assumes "1 \<le> w" "w \<le> k" "k + w < length data"
    and "\<forall>i<k. High (data ! i) < High (data ! Suc i)"
    and "\<forall>i. k \<le> i \<and> Suc i < length data \<longrightarrow> High (data ! Suc i) < High (data ! i)"
  shows "fst (find_pivot_points data w) = [high_pivot data k]"
    and "find_price_extremes data ''high'' w = [high_extreme data k]"
proof -
  have "filter (is_local_high data w) [w..<length data - w] = [k]"
    using assms by (intro unimodal_highs) auto
  then show "fst (find_pivot_points data w) = [high_pivot data k]"
    and "find_price_extremes data ''high'' w = [high_extreme data k]"
    by (simp_all add: find_pivot_points_def pivot_loop_fst find_price_extremes_def extremes_loop_eq)
qed

text \<open>
  Claim C2, as amended. A bar is reported as a high pivot exactly when its index \<open>i\<close>
  satisfies \<open>w \<le> i \<le> len(data) - w - 1\<close> and its High is at least each of the \<open>w\<close> Highs on
  both sides (for lows: its Low is at most each of them), in \<^verbatim>\<open>_find_pivot_points\<close> and in
  \<^verbatim>\<open>_find_price_extremes\<close> alike; so no pivot lies within \<open>w\<close> bars of either boundary.
  For a series that rises strictly to index \<open>k\<close> and falls strictly after it, exactly one
  high pivot is returned, at \<open>k\<close>, provided \<open>1 \<le> w\<close> and the peak is itself a candidate
  (\<open>w \<le> k \<le> len(data) - w - 1\<close>).
\<close>

theorem pivot_finder_window_rule:
  "(p \<in> set (fst (find_pivot_points data w)) \<longleftrightarrow>
     (\<exists>i. w \<le> i \<and> i + w < length data \<and>
        (\<forall>j. 1 \<le> j \<and> j \<le> w \<longrightarrow>
           High (data ! (i - j)) \<le> High (data ! i) \<and> High (data ! (i + j)) \<le> High (data ! i)) \<and>
        p = high_pivot data i)) \<and>
   (q \<in> set (snd (find_pivot_points data w)) \<longleftrightarrow>
     (\<exists>i. w \<le> i \<and> i + w < length data \<and>
        (\<forall>j. 1 \<le> j \<and> j \<le> w \<longrightarrow>
           Low (data ! i) \<le> Low (data ! (i - j)) \<and> Low (data ! i) \<le> Low (data ! (i + j))) \<and>
        q = low_pivot data i)) \<and>
   (e \<in> set (find_price_extremes data ''high'' w) \<longleftrightarrow>
     (\<exists>i. w \<le> i \<and> i + w < length data \<and>
        (\<forall>j. 1 \<le> j \<and> j \<le> w \<longrightarrow>
           High (data ! (i - j)) \<le> High (data ! i) \<and> High (data ! (i + j)) \<le> High (data ! i)) \<and>
        e = high_extreme data i)) \<and>
   (f \<in> set (find_price_extremes data ''low'' w) \<longleftrightarrow>
     (\<exists>i. w \<le> i \<and> i + w < length data \<and>
        (\<forall>j. 1 \<le> j \<and> j \<le> w \<longrightarrow>
           Low (data ! i) \<le> Low (data ! (i - j)) \<and> Low (data ! i) \<le> Low (data ! (i + j))) \<and>
        f = low_extreme data i)) \<and>
   (\<forall>r \<in> set (fst (find_pivot_points data w)) \<union> set (snd (find_pivot_points data w)).
      w \<le> index r \<and> index r + w < length data) \<and>
   (\<forall>r \<in> set (find_price_extremes data kind w). w \<le> index r \<and> index r + w < length data) \<and>
   (1 \<le> w \<and> w \<le> k \<and> k + w < length data \<and>
    (\<forall>i<k. High (data ! i) < High (data ! Suc i)) \<and>
    (\<forall>i. k \<le> i \<and> Suc i < length data \<longrightarrow> High (data ! Suc i) < High (data ! i)) \<longrightarrow>
      fst (find_pivot_points data w) = [high_pivot data k] \<and>
      find_price_extremes data ''high'' w = [high_extreme data k])"
proof (intro conjI)
  show "\<forall>r \<in> set (fst (find_pivot_points data w)) \<union> set (snd (find_pivot_points data w)).
      w \<le> index r \<and> index r + w < length data"
    using pivots_inside[of _ data w] by blast
  show "\<forall>r \<in> set (find_price_extremes data kind w). w \<le> index r \<and> index r + w < length data"
    using extremes_inside[of _ data kind w] by blast
  show "1 \<le> w \<and> w \<le> k \<and> k + w < length data \<and>
    (\<forall>i<k. High (data ! i) < High (data ! Suc i)) \<and>
    (\<forall>i. k \<le> i \<and> Suc i < length data \<longrightarrow> High (data ! Suc i) < High (data ! i)) \<longrightarrow>
      fst (find_pivot_points data w) = [high_pivot data k] \<and>
      find_price_extremes data ''high'' w = [high_extreme data k]"
    using unimodal_pivots[of w k data] by blast
qed (rule highs_mem lows_mem high_extremes_mem low_extremes_mem)+

theorem pivot_finder_window_rule_witness:
  "fst (find_pivot_points tent11 5) = [high_pivot tent11 5] \<and>
   find_price_extremes tent11 ''high'' 5 = [high_extreme tent11 5]"
proof -
  have len: "5 + 5 < length tent11" by (simp add: tent11_def)
  have up: "\<forall>i<5. High (tent11 ! i) < High (tent11 ! Suc i)"
    by (simp add: tent11_def price_bar_def)
  have down: "\<forall>i. 5 \<le> i \<and> Suc i < length tent11 \<longrightarrow> High (tent11 ! Suc i) < High (tent11 ! i)"
    by (simp add: tent11_def price_bar_def)
  show ?thesis
    using pivot_finder_window_rule[of _ tent11 5 _ _ _ _ 5] len up down by simp
qed

text \<open>
  The claim as first stated fails when the peak is too close to a boundary: with the
  default window 5 and the peak at index 2 of eleven bars, no high pivot is returned.
\<close>

theorem peak_near_boundary_counterexample:
  "map High early_peak = [10, 11, 12, 11, 10, 9, 8, 7, 6, 5, 4] \<and>
   fst (find_pivot_points early_peak 5) = [] \<and>
   find_price_extremes early_peak ''high'' 5 = []"
  by code_simp

section \<open>Properties of divergence detection\<close>

lemma detect_top_Cons:
  "xs \<noteq> [] \<Longrightarrow> detect_top_divergence t (x # xs) =
     (if price (hd xs) > price x \<and> volume (hd xs) < volume x * (1 - t)
      then [divergence_record ''top_divergence'' x (hd xs)] else [])
     @ detect_top_divergence t xs"
  by (cases xs) auto

lemma detect_top_append:
  "detect_top_divergence t (pre @ h1 # h2 # post) =
     detect_top_divergence t (pre @ [h1]) @ detect_top_divergence t [h1, h2]
       @ detect_top_divergence t (h2 # post)"
proof (induction pre)
  case Nil
  show ?case by simp
next
  case (Cons x pre)
  show ?case
    using Cons.IH by (cases pre) (simp_all add: detect_top_Cons)
qed

text \<open>
  Claim C3, as amended. With \<^verbatim>\<open>divergence_threshold\<close> 0.15 and two consecutive price highs
  of which the second is strictly higher: no top divergence is flagged when the second
  volume is at least \<open>(1 - 0.15)\<close> times the first; exactly one is flagged when the second
  volume equals \<open>(1 - 0.15 - 0.01)\<close> times the first and the first volume is positive. Inside a
  longer list of highs the pair contributes exactly what it contributes alone.
\<close>

theorem top_divergence_threshold:
  "(price h1 < price h2 \<and> (1 - 0.15) * volume h1 \<le> volume h2 \<longrightarrow>
      detect_top_divergence 0.15 [h1, h2] = []) \<and>
   (price h1 < price h2 \<and> 0 < volume h1 \<and> volume h2 = (1 - 0.15 - 0.01) * volume h1 \<longrightarrow>
      detect_top_divergence 0.15 [h1, h2] = [divergence_record ''top_divergence'' h1 h2]) \<and>
   detect_top_divergence 0.15 (pre @ h1 # h2 # post) =
     detect_top_divergence 0.15 (pre @ [h1]) @ detect_top_divergence 0.15 [h1, h2]
       @ detect_top_divergence 0.15 (h2 # post)"
proof (intro conjI impI)
  assume "price h1 < price h2 \<and> (1 - 0.15) * volume h1 \<le> volume h2"
  then show "detect_top_divergence 0.15 [h1, h2] = []" by (simp add: mult.commute)
next
  assume a: "price h1 < price h2 \<and> 0 < volume h1 \<and> volume h2 = (1 - 0.15 - 0.01) * volume h1"
  then have "volume h2 < volume h1 * (1 - 0.15)" by simp
  then show "detect_top_divergence 0.15 [h1, h2] = [divergence_record ''top_divergence'' h1 h2]"
    using a by simp
next
  show "detect_top_divergence 0.15 (pre @ h1 # h2 # post) =
     detect_top_divergence 0.15 (pre @ [h1]) @ detect_top_divergence 0.15 [h1, h2]
       @ detect_top_divergence 0.15 (h2 # post)"
    by (rule detect_top_append)
qed

theorem top_divergence_threshold_witness:
  "detect_top_divergence 0.15 [first_high, second_high_kept] = [] \<and>
   detect_top_divergence 0.15 [first_high, second_high_thin] =
     [divergence_record ''top_divergence'' first_high second_high_thin]"
proof -
  have a: "price first_high < price second_high_kept \<and>
      (1 - 0.15) * volume first_high \<le> volume second_high_kept"
    by (simp add: first_high_def second_high_kept_def)
  have b: "price first_high < price second_high_thin \<and> 0 < volume first_high \<and>
      volume second_high_thin = (1 - 0.15 - 0.01) * volume first_high"
    by (simp add: first_high_def second_high_thin_def)
  show ?thesis
    using top_divergence_threshold[of first_high second_high_kept "[]" "[]"]
      top_divergence_threshold[of first_high second_high_thin "[]" "[]"] a b
    by blast
qed

text \<open>
  Without a positive first volume the second half of the claim fails: two highs on zero
  volume satisfy its equation, and the strict comparison \<open>0 < 0 * 0.85\<close> flags nothing.
\<close>

theorem zero_volume_high_counterexample:
  "price idle_high < price idle_higher \<and>
   volume idle_higher = (1 - 0.15 - 0.01) * volume idle_high \<and>
   detect_top_divergence 0.15 [idle_high, idle_higher] = []"
  by (simp add: idle_high_def idle_higher_def)






section \<open>Properties of level clustering\<close>

lemma sum_list_bounds:
  fixes xs :: "real list"
  assumes "xs \<noteq> []" "\<forall>x\<in>set xs. a \<le> x \<and> x \<le> b"
  shows "real (length xs) * a \<le> sum_list xs \<and> sum_list xs \<le> real (length xs) * b"
  using assms
proof (induction xs rule: list_nonempty_induct)
  case (single x) then show ?case by simp
next
  case (cons x xs)
  then show ?case by (simp add: algebra_simps)
qed

lemma mean_bounds:
  fixes xs :: "real list"
  assumes "xs \<noteq> []" "\<forall>x\<in>set xs. a \<le> x \<and> x \<le> b"
  shows "a \<le> sum_list xs / real (length xs) \<and> sum_list xs / real (length xs) \<le> b"
proof -
  have n: "0 < real (length xs)" using assms(1) by simp
  from sum_list_bounds[OF assms]
  show ?thesis using n by (simp add: pos_le_divide_eq pos_divide_le_eq mult.commute)
qed

lemma group_price_bounds:
  assumes "grp \<noteq> []" "sorted (map l_price grp)"
  shows "l_price (hd grp) \<le> m_price (merge_level_group grp) \<and>
         m_price (merge_level_group grp) \<le> l_price (last grp)"
proof -
  have ne: "map l_price grp \<noteq> []" using assms by simp
  have "\<forall>x\<in>set (map l_price grp). l_price (hd grp) \<le> x \<and> x \<le> l_price (last grp)"
  proof
    fix x assume "x \<in> set (map l_price grp)"
    then obtain i where i: "i < length grp" "x = map l_price grp ! i"
      by (metis in_set_conv_nth length_map)
    have "map l_price grp ! 0 \<le> map l_price grp ! i"
      using assms(2) i(1) by (intro sorted_nth_mono) simp_all
    moreover have "map l_price grp ! i \<le> map l_price grp ! (length grp - 1)"
      using assms(2) i(1) by (intro sorted_nth_mono) simp_all
    ultimately show "l_price (hd grp) \<le> x \<and> x \<le> l_price (last grp)"
      using i assms(1) by (simp add: hd_conv_nth last_conv_nth)
  qed
  from mean_bounds[OF ne this] show ?thesis
    by (simp add: merge_level_group_def Let_def)
qed

lemma strict_head:
  fixes x :: real
  assumes "sorted_wrt (<) ys" "ys \<noteq> []" "x < hd ys"
  shows "sorted_wrt (<) (x # ys)"
proof (cases ys)
  case Nil then show ?thesis using assms by simp
next
  case (Cons y zs)
  then have "\<forall>z\<in>set zs. y < z" using assms(1) by simp
  then show ?thesis using assms Cons by auto
qed

lemma merge_loop_increasing:
  assumes "0 < tol"
  shows "grp \<noteq> [] \<Longrightarrow> sorted (map l_price (grp @ rest)) \<Longrightarrow>
         \<forall>l\<in>set (grp @ rest). 0 < l_price l \<Longrightarrow>
         \<exists>ms. merge_loop tol grp rest = Inr ms \<and> ms \<noteq> [] \<and>
              sorted_wrt (<) (map m_price ms) \<and> l_price (hd grp) \<le> m_price (hd ms)"
proof (induction rest arbitrary: grp)
  case Nil
  then have "sorted (map l_price grp)" by simp
  from group_price_bounds[OF Nil(1) this] show ?case by simp
next
  case (Cons l ls)
  let ?last = "last grp"
  have last_in: "?last \<in> set grp" using Cons.prems(1) by simp
  have pos_last: "0 < l_price ?last" using Cons.prems(3) last_in by simp
  have sorted_grp: "sorted (map l_price grp)"
    using Cons.prems(2) by (simp add: sorted_append)
  have le: "l_price ?last \<le> l_price l"
    using Cons.prems(2) last_in by (auto simp: sorted_append)
  show ?case
  proof (cases "\<bar>l_price l - l_price ?last\<bar> / l_price ?last < tol")
    case True
    have "\<exists>ms. merge_loop tol (grp @ [l]) ls = Inr ms \<and> ms \<noteq> [] \<and>
              sorted_wrt (<) (map m_price ms) \<and> l_price (hd (grp @ [l])) \<le> m_price (hd ms)"
      using Cons.prems by (intro Cons.IH) simp_all
    then show ?thesis using True pos_last Cons.prems(1) by (simp add: Let_def)
  next
    case False
    have "\<exists>ms. merge_loop tol [l] ls = Inr ms \<and> ms \<noteq> [] \<and>
              sorted_wrt (<) (map m_price ms) \<and> l_price (hd [l]) \<le> m_price (hd ms)"
      using Cons.prems by (intro Cons.IH) (simp_all add: sorted_append)
    then obtain ms where ms: "merge_loop tol [l] ls = Inr ms" "ms \<noteq> []"
      "sorted_wrt (<) (map m_price ms)" "l_price l \<le> m_price (hd ms)" by auto
    have "tol \<le> \<bar>l_price l - l_price ?last\<bar> / l_price ?last" using False by simp
    then have "0 < \<bar>l_price l - l_price ?last\<bar> / l_price ?last" using assms by simp
    then have "l_price l \<noteq> l_price ?last" by auto
    then have lt: "l_price ?last < l_price l" using le by simp
    have g: "l_price (hd grp) \<le> m_price (merge_level_group grp)"
      "m_price (merge_level_group grp) \<le> l_price ?last"
      using group_price_bounds[OF Cons.prems(1) sorted_grp] by simp_all
    have "m_price (merge_level_group grp) < hd (map m_price ms)"
      using g lt ms by (simp add: hd_map)
    then have "sorted_wrt (<) (m_price (merge_level_group grp) # map m_price ms)"
      using ms by (intro strict_head) simp_all
    then show ?thesis using False pos_last ms g by (simp add: Let_def)
  qed
qed

text \<open>
  Claim C10, as amended. For every non-empty list of levels with positive prices and
  every positive tolerance (0.02 unless configured otherwise), \<^verbatim>\<open>_merge_similar_levels\<close>
  returns normally and the prices of the merged levels are strictly increasing: each
  group's mean price is above the mean price of the group before it.
\<close>

theorem merged_levels_strictly_increasing:
  assumes "levels \<noteq> []" "\<forall>l\<in>set levels. 0 < l_price l" "0 < tolerance"
  shows "\<exists>merged. merge_similar_levels tolerance levels = Inr merged \<and>
           sorted_wrt (<) (map m_price merged)"
proof -
  let ?s = "sort_key l_price levels"
  have ne: "?s \<noteq> []" using assms(1) by (metis length_sort list.size(3) length_0_conv)
  then have split: "[hd ?s] @ tl ?s = ?s" by simp
  have "\<exists>ms. merge_loop tolerance [hd ?s] (tl ?s) = Inr ms \<and> ms \<noteq> [] \<and>
              sorted_wrt (<) (map m_price ms) \<and> l_price (hd [hd ?s]) \<le> m_price (hd ms)"
  proof (intro merge_loop_increasing)
    show "sorted (map l_price ([hd ?s] @ tl ?s))" unfolding split by simp
    show "\<forall>l\<in>set ([hd ?s] @ tl ?s). 0 < l_price l" unfolding split using assms(2) by simp
  qed (use assms in simp_all)
  then show ?thesis using assms(1) by (auto simp: merge_similar_levels_def Let_def)
qed

theorem merged_levels_strictly_increasing_witness:
  "\<exists>merged. merge_similar_levels 0.02
       [level_at 10.1 ''pivot_low'', level_at 10 ''gann_square'', level_at 15 ''pivot_high''] =
         Inr merged \<and> sorted_wrt (<) (map m_price merged)"
proof -
  let ?ls = "[level_at 10.1 ''pivot_low'', level_at 10 ''gann_square'', level_at 15 ''pivot_high'']"
  have "?ls \<noteq> []" "\<forall>l\<in>set ?ls. 0 < l_price l" "(0::real) < 0.02"
    by (simp_all add: level_at_def)
  then show ?thesis by (rule merged_levels_strictly_increasing)
qed

text \<open>
  The claim as first stated fails when the tolerance is configured as 0, which the
  constructor accepts: no two levels are ever merged then, and two levels at one price
  both come back, so the prices of the result are not strictly increasing.
\<close>

theorem zero_tolerance_counterexample:
  "merge_similar_levels 0 [level_at 10 ''pivot_low'', level_at 10 ''gann_square''] =
     Inr [kept_level (level_at 10 ''pivot_low''), kept_level (level_at 10 ''gann_square'')] \<and>
   map m_price [kept_level (level_at 10 ''pivot_low''), kept_level (level_at 10 ''gann_square'')] =
     [10, 10] \<and>
   \<not> sorted_wrt (<)
     (map m_price [kept_level (level_at 10 ''pivot_low''), kept_level (level_at 10 ''gann_square'')])"
  by (simp add: level_at_def kept_level_def merge_similar_levels_def merge_level_group_def)

lemma no_two_within_iff: "no_two_within tol ls = sorted_wrt (apart tol) ls"
  by (induction ls) (simp_all add: list_all_iff)

lemma apart_sym: "apart tol a b \<Longrightarrow> apart tol b a"
  by (simp add: apart_def min.commute abs_minus_commute)

lemma apart_insort:
  "sorted_wrt (apart tol) xs \<Longrightarrow> \<forall>y\<in>set xs. apart tol x y \<Longrightarrow>
   sorted_wrt (apart tol) (insort_key f x xs)"
  by (induction xs) (auto simp: set_insort_key intro: apart_sym)

lemma apart_sort_key:
  "sorted_wrt (apart tol) xs \<Longrightarrow> sorted_wrt (apart tol) (sort_key f xs)"
proof (induction xs)
  case Nil then show ?case by simp
next
  case (Cons x xs)
  then show ?case by (simp add: sort_key_def[symmetric] apart_insort)
qed

lemma merge_level_group_single: "merge_level_group [l] = kept_level l"
  by (simp add: merge_level_group_def kept_level_def)

lemma merge_loop_kept:
  "sorted (map l_price (x # rest)) \<Longrightarrow> \<forall>l\<in>set (x # rest). 0 < l_price l \<Longrightarrow>
   sorted_wrt (apart tol) (x # rest) \<Longrightarrow>
   merge_loop tol [x] rest = Inr (map kept_level (x # rest))"
proof (induction rest arbitrary: x)
  case Nil
  show ?case by (simp add: merge_level_group_single)
next
  case (Cons l ls)
  have pos: "0 < l_price x" and le: "l_price x \<le> l_price l" using Cons.prems by simp_all
  have "apart tol x l" using Cons.prems(3) by simp
  then have "tol * l_price x \<le> \<bar>l_price l - l_price x\<bar>"
    using le by (simp add: apart_def min_def abs_minus_commute)
  then have far: "\<not> \<bar>l_price l - l_price x\<bar> / l_price x < tol"
    using pos by (simp add: pos_divide_less_eq)
  have "merge_loop tol [l] ls = Inr (map kept_level (l # ls))"
    using Cons.prems by (intro Cons.IH) simp_all
  then show ?case using far pos by (simp add: merge_level_group_single)
qed

text \<open>
  Claim C5, as amended. For every list of levels with positive prices in which no two
  levels are within the tolerance fraction of the lower price, \<^verbatim>\<open>_merge_similar_levels\<close>
  returns the levels sorted ascending by price, every group a singleton that keeps the
  price, strength and type of its level; a list that is already sorted by price comes
  back in its own order.
\<close>

theorem separated_levels_kept:
  assumes "\<forall>l\<in>set levels. 0 < l_price l" "no_two_within tolerance levels"
  shows "merge_similar_levels tolerance levels = Inr (map kept_level (sort_key l_price levels)) \<and>
         (sorted (map l_price levels) \<longrightarrow>
            merge_similar_levels tolerance levels = Inr (map kept_level levels))"
proof (cases "levels = []")
  case True then show ?thesis by (simp add: merge_similar_levels_def)
next
  case False
  let ?s = "sort_key l_price levels"
  have ne: "?s \<noteq> []" using False by (metis length_sort list.size(3) length_0_conv)
  then have split: "hd ?s # tl ?s = ?s" by simp
  have "merge_loop tolerance [hd ?s] (tl ?s) = Inr (map kept_level (hd ?s # tl ?s))"
  proof (intro merge_loop_kept)
    show "sorted (map l_price (hd ?s # tl ?s))" unfolding split by simp
    show "\<forall>l\<in>set (hd ?s # tl ?s). 0 < l_price l" unfolding split using assms(1) by simp
    show "sorted_wrt (apart tolerance) (hd ?s # tl ?s)"
      unfolding split using assms(2) by (simp add: no_two_within_iff apart_sort_key)
  qed
  then have "merge_similar_levels tolerance levels = Inr (map kept_level ?s)"
    using False unfolding split by (simp add: merge_similar_levels_def Let_def)
  then show ?thesis by (simp add: sort_key_id_if_sorted)
qed

theorem separated_levels_kept_witness:
  "merge_similar_levels 0.02
     [level_at 10 ''pivot_low'', level_at 12 ''gann_square'', level_at 15 ''pivot_high''] =
   Inr [kept_level (level_at 10 ''pivot_low''), kept_level (level_at 12 ''gann_square''),
        kept_level (level_at 15 ''pivot_high'')]"
proof -
  let ?ls = "[level_at 10 ''pivot_low'', level_at 12 ''gann_square'', level_at 15 ''pivot_high'']"
  have "\<forall>l\<in>set ?ls. 0 < l_price l" by (simp add: level_at_def)
  moreover have "no_two_within 0.02 ?ls" by (simp add: level_at_def apart_def)
  moreover have "sorted (map l_price ?ls)" by (simp add: level_at_def)
  ultimately show ?thesis using separated_levels_kept[of ?ls "0.02"] by simp
qed

text \<open>
  The claim as first stated fails for a list that is not sorted by price: the levels come
  back in ascending order, not in the order given.
\<close>

theorem unsorted_levels_counterexample:
  "no_two_within 0.02 [level_at 20 ''pivot_high'', level_at 10 ''pivot_low''] \<and>
   merge_similar_levels 0.02 [level_at 20 ''pivot_high'', level_at 10 ''pivot_low''] =
     Inr [kept_level (level_at 10 ''pivot_low''), kept_level (level_at 20 ''pivot_high'')] \<and>
   kept_level (level_at 10 ''pivot_low'') \<noteq> kept_level (level_at 20 ''pivot_high'')"
  by (simp add: level_at_def apart_def kept_level_def merge_similar_levels_def merge_level_group_def)

section \<open>Properties of the comprehensive score\<close>

lemma detect_top_flat:
  "\<forall>e\<in>set es. price e = p \<Longrightarrow> detect_top_divergence t es = []"
  by (induction t es rule: detect_top_divergence.induct) auto

lemma detect_bottom_flat:
  "\<forall>e\<in>set es. price e = p \<Longrightarrow> detect_bottom_divergence t es = []"
  by (induction t es rule: detect_bottom_divergence.induct) auto

lemma flat_high: "i < 100 \<Longrightarrow> High (flat_series ! i) = 10"
  by (simp add: flat_series_def)

lemma flat_low: "i < 100 \<Longrightarrow> Low (flat_series ! i) = 10"
  by (simp add: flat_series_def)

lemma flat_no_divergence:
  "top_divergences t flat_series = []" "bottom_divergences t flat_series = []"
proof -
  have "\<forall>e\<in>set (find_price_extremes flat_series ''high'' 5). price e = 10"
  proof
    fix e assume "e \<in> set (find_price_extremes flat_series ''high'' 5)"
    then obtain i where "i + 5 < length flat_series" "e = high_extreme flat_series i"
      unfolding high_extremes_mem by blast
    then show "price e = 10" by (simp add: high_extreme_def flat_series_def)
  qed
  then show "top_divergences t flat_series = []"
    unfolding top_divergences_def by (rule detect_top_flat)
  have "\<forall>e\<in>set (find_price_extremes flat_series ''low'' 5). price e = 10"
  proof
    fix e assume "e \<in> set (find_price_extremes flat_series ''low'' 5)"
    then obtain i where "i + 5 < length flat_series" "e = low_extreme flat_series i"
      unfolding low_extremes_mem by blast
    then show "price e = 10" by (simp add: low_extreme_def flat_series_def)
  qed
  then show "bottom_divergences t flat_series = []"
    unfolding bottom_divergences_def by (rule detect_bottom_flat)
qed

lemma flat_current_divergence:
  "analyze_divergence t flat_series =
     Some \<lparr>da_divergences = [], da_top_divergences = [], da_bottom_divergences = [],
           current_divergence = None, total_divergences = 0\<rparr>"
  by (simp add: analyze_divergence_def flat_no_divergence check_current_divergence_status_def)

text \<open>
  Claim C6. The score is always within [0, 100], and on the regular path the rating is the
  one the cutoffs give (the two lemmas after the theorem). On a flat series no divergence
  is found, \<^verbatim>\<open>current_divergence\<close> is \<^verbatim>\<open>None\<close>, the risk score raises and the handler
  returns score 50 with rating C, where the cutoffs give C+ for 50.
\<close>

theorem degraded_rating_off_cutoffs:
  "comprehensive_score (calculate_comprehensive_score
      \<lparr>volume_price_relation = rel, divergence_analysis = analyze_divergence 0.15 flat_series,
       abnormal_volume = ab, price_volume_coordination = co, trend_analysis = tr\<rparr>) = 50 \<and>
   rating (calculate_comprehensive_score
      \<lparr>volume_price_relation = rel, divergence_analysis = analyze_divergence 0.15 flat_series,
       abnormal_volume = ab, price_volume_coordination = co, trend_analysis = tr\<rparr>) = ''C'' \<and>
   get_comprehensive_rating 50 = ''C+''"
  by (simp add: flat_current_divergence calculate_comprehensive_score_def
      score_divergence_risk_def get_comprehensive_rating_def)

lemma rating_follows_cutoffs:
  assumes "score_divergence_risk (divergence_analysis a) = Inr d"
  shows "rating (calculate_comprehensive_score a) =
           get_comprehensive_rating (comprehensive_score (calculate_comprehensive_score a))"
  using assms by (simp add: calculate_comprehensive_score_def Let_def)

lemma comprehensive_score_bounds:
  "0 \<le> comprehensive_score (calculate_comprehensive_score a) \<and>
   comprehensive_score (calculate_comprehensive_score a) \<le> 100"
  by (simp add: calculate_comprehensive_score_def Let_def split: sum.splits)

section \<open>Properties of the prediction confidence\<close>

lemma dynamic_confidence_range:
  "30 \<le> calculate_dynamic_confidence t s v f a \<and> calculate_dynamic_confidence t s v f a \<le> 95"
  by (simp add: calculate_dynamic_confidence_def Let_def)

lemma resistance_confidence_range:
  "p \<in> set (gann_resistance_targets m rs) \<Longrightarrow> 30 \<le> confidence p \<and> confidence p \<le> 95"
  by (auto simp: gann_resistance_targets_def set_zip split: if_splits)

lemma support_confidence_range:
  "p \<in> set (gann_support_targets g m ss) \<Longrightarrow> 30 \<le> confidence p \<and> confidence p \<le> 95"
  using dynamic_confidence_range
  by (auto simp: gann_support_targets_def Let_def split: if_splits)

lemma wheel_confidence_range:
  "p \<in> set (detailed_gann_wheel_levels td m) \<Longrightarrow> 30 \<le> confidence p \<and> confidence p \<le> 95"
  using dynamic_confidence_range
  by (auto simp: detailed_gann_wheel_levels_def Let_def)

lemma fibonacci_target_confidence:
  "p \<in> set (fibonacci_target h l c lv) \<Longrightarrow> confidence p = 60 \<or> confidence p = 70"
  by (cases "quotient_above \<bar>h - (h - l) * lv - c\<bar> c 0.02")
     (simp_all add: fibonacci_target_def Let_def)

lemma fibonacci_confidence_range:
  "p \<in> set (fibonacci_targets data) \<Longrightarrow> 30 \<le> confidence p \<and> confidence p \<le> 95"
proof -
  assume "p \<in> set (fibonacci_targets data)"
  then obtain h l c lv where "p \<in> set (fibonacci_target h l c lv)"
    unfolding fibonacci_targets_def Let_def set_concat set_map by blast
  from fibonacci_target_confidence[OF this] show ?thesis by auto
qed

lemma divergence_confidence_range:
  "divergence_targets c v s = Inr ps \<Longrightarrow> p \<in> set ps \<Longrightarrow>
   30 \<le> confidence p \<and> confidence p \<le> 95"
  using dynamic_confidence_range
  by (auto simp: divergence_targets_def Let_def split: if_splits)

lemma signal_confidence_range:
  "signal_targets c v ss = Inr ps \<Longrightarrow> p \<in> set ps \<Longrightarrow>
   30 \<le> confidence p \<and> confidence p \<le> 95"
proof (induction ss arbitrary: ps)
  case Nil
  then show ?case by simp
next
  case (Cons s ss)
  from Cons.prems(1) obtain ts later where
    ts: "divergence_targets c v s = Inr ts" and later: "signal_targets c v ss = Inr later"
    and ps: "ps = ts @ later"
    by (auto split: sum.splits)
  from Cons.prems(2) ps consider "p \<in> set ts" | "p \<in> set later" by auto
  then show ?case
  proof cases
    case 1 with ts show ?thesis by (rule divergence_confidence_range)
  next
    case 2 with later show ?thesis by (rule Cons.IH)
  qed
qed

lemma signal_targets_raise:
  "(\<exists>e. signal_targets c v ss = Inl e) \<longleftrightarrow>
   (\<exists>s\<in>set ss. s_kind s \<noteq> Other_signal) \<and>
   (avg_volume_5 v = None \<or> avg_volume_20 v = None \<or> avg_volume_60 v = None)"
  by (induction ss) (auto simp: divergence_targets_def Let_def split: sum.splits)

lemma breakout_confidence_range:
  "p \<in> set (breakout_targets c v) \<Longrightarrow> 30 \<le> confidence p \<and> confidence p \<le> 95"
proof -
  assume "p \<in> set (breakout_targets c v)"
  then show ?thesis
    unfolding breakout_targets_def
    by (auto simp: breakout_level_def split: if_splits)
qed

lemma memory_confidence_range:
  "p \<in> set (volume_price_levels c closes) \<Longrightarrow> 30 \<le> confidence p \<and> confidence p \<le> 95"
  by (auto simp: volume_price_levels_def set_zip)

lemma volume_confidence_range:
  assumes "volume_price_targets c v ss closes = Inr ps" "p \<in> set ps"
  shows "30 \<le> confidence p \<and> confidence p \<le> 95"
proof -
  from assms(1) obtain ds where ds: "signal_targets c v ss = Inr ds"
    and ps: "ps = ds @ breakout_targets c v @ volume_price_levels c closes"
    by (auto simp: volume_price_targets_def split: sum.splits)
  from assms(2) ps consider "p \<in> set ds" | "p \<in> set (breakout_targets c v)"
    | "p \<in> set (volume_price_levels c closes)" by auto
  then show ?thesis
  proof cases
    case 1 with ds show ?thesis by (rule signal_confidence_range)
  next
    case 2 then show ?thesis by (rule breakout_confidence_range)
  next
    case 3 then show ?thesis by (rule memory_confidence_range)
  qed
qed

lemma pivot_confidence_range:
  "p \<in> set (support_resistance_targets m pts) \<Longrightarrow> 30 \<le> confidence p \<and> confidence p \<le> 95"
  using dynamic_confidence_range
  by (auto simp: support_resistance_targets_def split: if_splits)

lemma gann_confidence_range:
  assumes "p \<in> set (gann_price_targets g td m ss rs)"
  shows "30 \<le> confidence p \<and> confidence p \<le> 95"
proof -
  from assms consider "p \<in> set (gann_support_targets g m ss)"
    | "p \<in> set (gann_resistance_targets m rs)"
    | "p \<in> set (detailed_gann_wheel_levels td m)"
    unfolding gann_price_targets_def by auto
  then show ?thesis
    by cases (rule support_confidence_range resistance_confidence_range
        wheel_confidence_range, assumption)+
qed

lemma candidate_confidence_range:
  assumes "candidate_predictions g td inp data = Inr ps" "p \<in> set ps"
  shows "30 \<le> confidence p \<and> confidence p \<le> 95"
proof -
  from assms(1) obtain vs where
    vs: "volume_price_targets (current_price (in_market inp)) (in_volume inp)
           (current_signals inp) (top_volume_closes inp) = Inr vs"
    and ps: "ps = gann_price_targets g td (in_market inp) (key_supports inp)
                    (key_resistances inp)
                  @ vs @ fibonacci_targets data
                  @ support_resistance_targets (in_market inp) (pivot_points inp)"
    by (auto simp: candidate_predictions_def Let_def split: sum.splits)
  from assms(2) ps consider
      "p \<in> set (gann_price_targets g td (in_market inp) (key_supports inp)
         (key_resistances inp))"
    | "p \<in> set vs"
    | "p \<in> set (fibonacci_targets data)"
    | "p \<in> set (support_resistance_targets (in_market inp) (pivot_points inp))"
    by auto
  then show ?thesis
  proof cases
    case 1 then show ?thesis by (rule gann_confidence_range)
  next
    case 2 with vs show ?thesis by (rule volume_confidence_range)
  next
    case 3 then show ?thesis by (rule fibonacci_confidence_range)
  next
    case 4 then show ?thesis by (rule pivot_confidence_range)
  qed
qed

lemma merge_prediction_subset: "set (merge_prediction p ms) \<subseteq> insert p (set ms)"
  by (induction ms) auto

lemma merge_fold_subset:
  "set (foldl (\<lambda>merged pred. merge_prediction pred merged) acc ps) \<subseteq> set acc \<union> set ps"
proof (induction ps arbitrary: acc)
  case Nil show ?case by simp
next
  case (Cons p ps)
  show ?case using Cons[of "merge_prediction p acc"] merge_prediction_subset[of p acc]
    by auto
qed

lemma merged_subset: "set (merge_similar_predictions ps) \<subseteq> set ps"
  using merge_fold_subset[of "[]" ps] by (simp add: merge_similar_predictions_def)

lemma key_levels_subset:
  assumes "calculate_key_price_levels g td inp data = Inr ks"
  shows "\<exists>ps. candidate_predictions g td inp data = Inr ps \<and> set ks \<subseteq> set ps"
proof -
  from assms obtain ps where ps: "candidate_predictions g td inp data = Inr ps"
    and ks: "ks = take 12 (sort_key (\<lambda>p. - confidence p) (merge_similar_predictions ps))"
    by (auto simp: calculate_key_price_levels_def split: sum.splits)
  have "set ks \<subseteq> set (merge_similar_predictions ps)"
    unfolding ks
    using set_take_subset[of 12 "sort_key (\<lambda>p. - confidence p) (merge_similar_predictions ps)"]
    by simp
  then show ?thesis using ps merged_subset by blast
qed

lemma key_price_levels_raise:
  "(\<exists>e. calculate_key_price_levels g td inp data = Inl e) \<longleftrightarrow>
   (\<exists>s\<in>set (current_signals inp). s_kind s \<noteq> Other_signal) \<and>
   (avg_volume_5 (in_volume inp) = None \<or> avg_volume_20 (in_volume inp) = None \<or>
    avg_volume_60 (in_volume inp) = None)"
proof -
  have "(\<exists>e. calculate_key_price_levels g td inp data = Inl e) \<longleftrightarrow>
        (\<exists>e. signal_targets (current_price (in_market inp)) (in_volume inp)
               (current_signals inp) = Inl e)"
    by (auto simp: calculate_key_price_levels_def candidate_predictions_def
        volume_price_targets_def Let_def split: sum.splits)
  then show ?thesis unfolding signal_targets_raise .
qed

text \<open>
  Claim C7, as amended. Every price prediction that the synthesizer returns, from any of
  its candidate models, after merging and in the final list of twelve, has an integer
  confidence between 30 and 95.
\<close>

theorem prediction_confidence_range:
  "(\<forall>ps. candidate_predictions gann_angle tan_deg inp data = Inr ps \<longrightarrow>
      (\<forall>p \<in> set ps. 30 \<le> confidence p \<and> confidence p \<le> 95) \<and>
      (\<forall>p \<in> set (merge_similar_predictions ps). 30 \<le> confidence p \<and> confidence p \<le> 95)) \<and>
   (\<forall>ks. calculate_key_price_levels gann_angle tan_deg inp data = Inr ks \<longrightarrow>
      (\<forall>p \<in> set ks. 30 \<le> confidence p \<and> confidence p \<le> 95))"
proof -
  have candidates: "30 \<le> confidence p \<and> confidence p \<le> 95"
    if "candidate_predictions gann_angle tan_deg inp data = Inr ps" "p \<in> set ps" for ps p
    using that by (rule candidate_confidence_range)
  have merged: "30 \<le> confidence p \<and> confidence p \<le> 95"
    if "candidate_predictions gann_angle tan_deg inp data = Inr ps"
      "p \<in> set (merge_similar_predictions ps)" for ps p
  proof -
    have "p \<in> set ps" using that(2) merged_subset by blast
    with that(1) show ?thesis by (rule candidate_confidence_range)
  qed
  have final: "30 \<le> confidence p \<and> confidence p \<le> 95"
    if ks: "calculate_key_price_levels gann_angle tan_deg inp data = Inr ks"
      and p: "p \<in> set ks" for ks p
  proof -
    from key_levels_subset[OF ks] obtain ps where
      ps: "candidate_predictions gann_angle tan_deg inp data = Inr ps"
      and "set ks \<subseteq> set ps"
      by blast
    then have "p \<in> set ps" using p by blast
    with ps show ?thesis by (rule candidate_confidence_range)
  qed
  show ?thesis using candidates merged final by blast
qed

theorem prediction_confidence_range_witness:
  "\<exists>ps. candidate_predictions calculate_gann_angle tan_degrees calm_inputs lone_peak = Inr ps \<and>
     \<lparr>target_price = 110, direction = ''up'', p_type = ''gann_pivot_high'', confidence = 90\<rparr>
       \<in> set ps \<and>
     30 \<le> confidence \<lparr>target_price = 110, direction = ''up'', p_type = ''gann_pivot_high'',
                         confidence = 90\<rparr> \<and>
     confidence \<lparr>target_price = 110, direction = ''up'', p_type = ''gann_pivot_high'',
                   confidence = 90\<rparr> \<le> 95"
proof -
  let ?p = "\<lparr>target_price = 110, direction = ''up'', p_type = ''gann_pivot_high'',
             confidence = 90\<rparr>"
  have "\<not> (\<exists>e. calculate_key_price_levels calculate_gann_angle tan_degrees calm_inputs
              lone_peak = Inl e)"
    unfolding key_price_levels_raise by (simp add: calm_inputs_def)
  then have "\<not> (\<exists>e. candidate_predictions calculate_gann_angle tan_degrees calm_inputs
              lone_peak = Inl e)"
    by (auto simp: calculate_key_price_levels_def)
  then obtain ps where
    ps: "candidate_predictions calculate_gann_angle tan_degrees calm_inputs lone_peak = Inr ps"
    by (cases "candidate_predictions calculate_gann_angle tan_degrees calm_inputs lone_peak")
       auto
  have "gann_resistance_targets calm_market [resistance_110] = [?p]"
    by (simp add: gann_resistance_targets_def calm_market_def resistance_110_def)
  then have "?p \<in> set (gann_price_targets calculate_gann_angle tan_degrees calm_market
      [support_90] [resistance_110])"
    by (simp add: gann_price_targets_def)
  then have "?p \<in> set ps"
    using ps by (auto simp: candidate_predictions_def calm_inputs_def Let_def split: sum.splits)
  then show ?thesis
    using prediction_confidence_range[of calculate_gann_angle tan_degrees calm_inputs lone_peak]
      ps
    by blast
qed

text \<open>
  The claim as first stated also has every confidence computed dynamically. That fails:
  the first Gann resistance gets 90 in a calm and in a volatile market alike, and the
  38.2% Fibonacci target gets 70 whatever the price range, where
  \<^verbatim>\<open>_calculate_dynamic_confidence\<close> tells the two markets apart.
\<close>

theorem static_confidence_counterexample:
  "map confidence (gann_resistance_targets calm_market [resistance_110]) = [90] \<and>
   map confidence (gann_resistance_targets wild_market [resistance_110]) = [90] \<and>
   map confidence (fibonacci_target 120 80 100 0.382) = [70] \<and>
   map confidence (fibonacci_target 300 20 100 0.382) = [70] \<and>
   calculate_dynamic_confidence ''fibonacci'' 0.5 0.01 1 0.5 = 67 \<and>
   calculate_dynamic_confidence ''fibonacci'' 0.5 0.08 1 0.5 = 55"
  by (simp add: gann_resistance_targets_def calm_market_def wild_market_def resistance_110_def
      fibonacci_target_def quotient_above_def calculate_dynamic_confidence_def
      base_confidence_def py_int_def Let_def)

section \<open>Properties of the angle projections\<close>

lemma wheel_targets_clamped:
  assumes "0 \<le> current"
  shows "wheel_up_target tan_deg current angle \<le> current * 1.5"
    and "current * 0.6 \<le> wheel_down_target tan_deg current angle"
proof -
  have "min (wheel_tan_value tan_deg angle * 0.02) 0.5 \<le> 0.5" by simp
  then have "current * (1 + min (wheel_tan_value tan_deg angle * 0.02) 0.5) \<le> current * (1 + 0.5)"
    using assms by (intro mult_left_mono) simp_all
  then show "wheel_up_target tan_deg current angle \<le> current * 1.5"
    by (simp add: wheel_up_target_def Let_def)
  have "min (wheel_tan_value tan_deg angle * 0.015) 0.4 \<le> 0.4" by simp
  then have "current * (1 - 0.4) \<le> current * (1 - min (wheel_tan_value tan_deg angle * 0.015) 0.4)"
    using assms by (intro mult_left_mono) simp_all
  then show "current * 0.6 \<le> wheel_down_target tan_deg current angle"
    by (simp add: wheel_down_target_def Let_def)
qed

lemma wheel_level_prices:
  assumes "p \<in> set (detailed_gann_wheel_levels tan_deg m)"
  shows "\<exists>angle.
           (direction p = ''up'' \<and>
            target_price p = wheel_up_target tan_deg (current_price m) angle) \<or>
           (direction p = ''down'' \<and>
            target_price p = wheel_down_target tan_deg (current_price m) angle)"
  using assms by (auto simp: detailed_gann_wheel_levels_def Let_def)

text \<open>
  Claim C9, as amended. In the Gann-wheel level projection
  (\<^verbatim>\<open>_calculate_detailed_gann_wheel_levels\<close>) the tangent is not used for an angle of 90
  degrees or more (the value 10 replaces it), and for a non-negative reference price
  every upward target is at most 50% above it and every downward target at most 40%
  below it.
\<close>

theorem wheel_levels_guarded_and_clamped:
  "(90 \<le> angle \<longrightarrow> wheel_tan_value tan_deg angle = 10) \<and>
   (0 \<le> current \<longrightarrow>
      wheel_up_target tan_deg current angle \<le> current * 1.5 \<and>
      current * 0.6 \<le> wheel_down_target tan_deg current angle) \<and>
   (0 \<le> current_price m \<longrightarrow>
      (\<forall>p \<in> set (detailed_gann_wheel_levels tan_deg m).
         (direction p = ''up'' \<longrightarrow> target_price p \<le> current_price m * 1.5) \<and>
         (direction p = ''down'' \<longrightarrow> current_price m * 0.6 \<le> target_price p)))"
proof (intro conjI impI ballI)
  assume "90 \<le> angle"
  then show "wheel_tan_value tan_deg angle = 10" by (simp add: wheel_tan_value_def)
next
  assume "0 \<le> current"
  then show "wheel_up_target tan_deg current angle \<le> current * 1.5"
    and "current * 0.6 \<le> wheel_down_target tan_deg current angle"
    by (rule wheel_targets_clamped)+
next
  fix p assume pos: "0 \<le> current_price m"
    and p: "p \<in> set (detailed_gann_wheel_levels tan_deg m)" and up: "direction p = ''up''"
  from wheel_level_prices[OF p] up obtain angle where
    "target_price p = wheel_up_target tan_deg (current_price m) angle" by auto
  then show "target_price p \<le> current_price m * 1.5"
    using wheel_targets_clamped(1)[OF pos, of tan_deg angle] by simp
next
  fix p assume pos: "0 \<le> current_price m"
    and p: "p \<in> set (detailed_gann_wheel_levels tan_deg m)" and down: "direction p = ''down''"
  from wheel_level_prices[OF p] down obtain angle where
    "target_price p = wheel_down_target tan_deg (current_price m) angle" by auto
  then show "current_price m * 0.6 \<le> target_price p"
    using wheel_targets_clamped(2)[OF pos, of tan_deg angle] by simp
qed

theorem wheel_levels_guarded_and_clamped_witness:
  "wheel_tan_value tan_degrees 90 = 10 \<and>
   wheel_up_target tan_degrees 100 75 \<le> 100 * 1.5 \<and>
   100 * 0.6 \<le> wheel_down_target tan_degrees 100 75"
  using wheel_levels_guarded_and_clamped[of 90 tan_degrees 100 calm_market]
    wheel_levels_guarded_and_clamped[of 75 tan_degrees 100 calm_market]
  by simp

text \<open>
  The angle lines of the Gann engine (\<^verbatim>\<open>_calculate_gann_angle_line\<close>) have no such guard or
  clamp: 90 is among the default \<^verbatim>\<open>price_angles\<close>, the slope of its line is the tangent at
  90 degrees, and the 45-degree line from a low at 10 projects 20 after 100 bars, a move
  of +100%.
\<close>

theorem angle_line_counterexample:
  "90 \<in> set price_angles \<and>
   angle_line_slope tan_degrees 90 ''low'' = tan_degrees 90 \<and>
   predicted_price 10 (angle_line_slope tan_degrees 45 ''low'') 100 = 20"
  by (simp add: price_angles_def angle_line_slope_def predicted_price_def)

section \<open>Properties of the two entry points\<close>






lemma guarded_raise: "guarded (Inl e) fallback = fallback"
  by (simp add: guarded_def)

lemma gann_result:
  assumes "gann_analyze_stock b now symbol data = Inr r"
  shows "r = [(''symbol'', PStr symbol), (''analysis_date'', PInt now),
              (''data_range'', data_range (sort_index data)),
              (''time_analysis'', analyze_time_cycles b (sort_index data)),
              (''price_analysis'', analyze_price_cycles b (sort_index data)),
              (''angle_analysis'', analyze_gann_angles b (sort_index data)),
              (''square_analysis'', analyze_gann_square b (sort_index data)),
              (''resonance_analysis'', analyze_time_price_resonance b (sort_index data)),
              (''key_levels'', calculate_key_levels b (sort_index data)),
              (''predictions'', generate_predictions b (sort_index data)
                  (analyze_time_cycles b (sort_index data))
                  (analyze_price_cycles b (sort_index data))
                  (analyze_gann_angles b (sort_index data)))]"
proof (cases "df_empty data")
  case True
  then show ?thesis using assms by (simp add: gann_analyze_stock_def)
next
  case False
  then show ?thesis using assms by (simp add: gann_analyze_stock_def Let_def)
qed

lemma vp_result:
  assumes "vp_analyze_stock b now symbol data = Inr r"
  shows "r = [(''symbol'', PStr symbol), (''analysis_date'', PInt now),
              (''data_range'', data_range (sort_index data)),
              (''basic_indicators'', calculate_basic_indicators b (sort_index data)),
              (''volume_price_relation'', analyze_volume_price_relation b (sort_index data)),
              (''divergence_analysis'', analyze_divergence_stage b (sort_index data)),
              (''volume_patterns'', identify_volume_patterns b (sort_index data)),
              (''price_volume_coordination'',
                 analyze_price_volume_coordination b (sort_index data)),
              (''abnormal_volume'', analyze_abnormal_volume b (sort_index data)),
              (''trend_analysis'', analyze_volume_price_trend b (sort_index data)),
              (''comprehensive_score'',
                 comprehensive_score_stage b
                   (analyze_volume_price_relation b (sort_index data))
                   (analyze_divergence_stage b (sort_index data))
                   (analyze_abnormal_volume b (sort_index data))
                   (analyze_price_volume_coordination b (sort_index data))
                   (analyze_volume_price_trend b (sort_index data))),
              (''trading_signals'',
                 generate_trading_signals b (sort_index data)
                   (analyze_volume_price_relation b (sort_index data))
                   (analyze_divergence_stage b (sort_index data))
                   (identify_volume_patterns b (sort_index data))
                   (analyze_abnormal_volume b (sort_index data))
                   (comprehensive_score_stage b
                      (analyze_volume_price_relation b (sort_index data))
                      (analyze_divergence_stage b (sort_index data))
                      (analyze_abnormal_volume b (sort_index data))
                      (analyze_price_volume_coordination b (sort_index data))
                      (analyze_volume_price_trend b (sort_index data))))]"
proof -
  have "\<not> df_empty data" "missing_columns data = []"
    using assms by (auto simp: vp_analyze_stock_def split: if_splits)
  then show ?thesis using assms by (simp add: vp_analyze_stock_def Let_def)
qed




text \<open>
  Both entry points store the reading of the clock under \<^verbatim>\<open>analysis_date\<close>, so the results of
  two calls on one table differ as soon as the clock has moved between them.
\<close>

lemma analysis_date_is_clock_reading:
  "(gann_analyze_stock gb now symbol data = Inr q \<longrightarrow>
      map_of q ''analysis_date'' = Some (PInt now)) \<and>
   (vp_analyze_stock vb now symbol data = Inr r \<longrightarrow>
      map_of r ''analysis_date'' = Some (PInt now))"
proof (intro conjI impI)
  assume "gann_analyze_stock gb now symbol data = Inr q"
  from gann_result[OF this] show "map_of q ''analysis_date'' = Some (PInt now)" by simp
next
  assume "vp_analyze_stock vb now symbol data = Inr r"
  from vp_result[OF this] show "map_of r ''analysis_date'' = Some (PInt now)" by simp
qed

end
